theory Spec2Isabelle
  imports Complex_Main "HOL-Library.Multiset"
begin

section \<open>Python values used by pydealer\<close>

text \<open>
  The exceptions the modelled code can raise.  A function that can raise returns
  \<open>error + 'a\<close>, with \<open>Inl\<close> for the exception.
\<close>

datatype error =
    ValueError
  | AttributeError
  | NameError
  | UnboundLocalError
  | IndexError
  | KeyError

subsection \<open>Strings\<close>

text \<open>
  A Python \<open>str\<close> is modelled where it is ASCII text (\<open>is_ascii\<close>), one character
  per code point.  On such text \<open>str.capitalize()\<close> upper-cases the first character
  if it is one of \<open>a\<close> to \<open>z\<close> and lower-cases each later character that is one of
  \<open>A\<close> to \<open>Z\<close>.  What Python does with other text (Unicode case mapping, Unicode
  digits and spaces) is outside these definitions, and every statement about text
  below is made for ASCII text.
\<close>

definition is_ascii :: "string \<Rightarrow> bool" where
  "is_ascii s = list_all (\<lambda>c. (of_char c :: nat) < 128) s"

definition upper_char :: "char \<Rightarrow> char" where
  "upper_char c =
     (let n = (of_char c :: nat) in if 97 \<le> n \<and> n \<le> 122 then char_of (n - 32) else c)"

definition lower_char :: "char \<Rightarrow> char" where
  "lower_char c =
     (let n = (of_char c :: nat) in if 65 \<le> n \<and> n \<le> 90 then char_of (n + 32) else c)"

fun capitalize :: "string \<Rightarrow> string" where
  "capitalize [] = []"
| "capitalize (c # cs) = upper_char c # map lower_char cs"

text \<open>
  \<open>int(s)\<close> on ASCII text: the whitespace of C's \<open>isspace\<close> (tab, newline, vertical
  tab, form feed, carriage return, space) is stripped at both ends, one sign is
  allowed, and the rest must be decimal digits, where single underscores may separate
  digits.  CPython also refuses a literal of more than \<open>max_str_digits\<close> digits
  (4300 unless the program changes \<open>sys.set_int_max_str_digits\<close>, which pydealer
  does not).  Every refusal is a \<open>ValueError\<close>, which is \<open>None\<close> here.
\<close>

definition is_space :: "char \<Rightarrow> bool" where
  "is_space c = ((of_char c :: nat) \<in> {9, 10, 11, 12, 13, 32})"

definition max_str_digits :: nat where
  "max_str_digits = 4300"

definition is_digit :: "char \<Rightarrow> bool" where
  "is_digit c = (48 \<le> (of_char c :: nat) \<and> (of_char c :: nat) \<le> 57)"

definition digit_val :: "char \<Rightarrow> int" where
  "digit_val c = int (of_char c) - 48"

definition strip :: "string \<Rightarrow> string" where
  "strip s = rev (dropWhile is_space (rev (dropWhile is_space s)))"

fun digits_ok :: "string \<Rightarrow> bool" where
  "digits_ok [] = False"
| "digits_ok [c] = is_digit c"
| "digits_ok (c # d # r) =
     (is_digit c \<and> (if d = CHR ''_'' then digits_ok r else digits_ok (d # r)))"

definition decimal :: "string \<Rightarrow> int" where
  "decimal ds = foldl (\<lambda>acc c. 10 * acc + digit_val c) 0 (filter is_digit ds)"

definition literal :: "string \<Rightarrow> int option" where
  "literal ds =
     (if digits_ok ds \<and> length (filter is_digit ds) \<le> max_str_digits
      then Some (decimal ds) else None)"

definition py_int :: "string \<Rightarrow> int option" where
  "py_int s =
     (case strip s of
        [] \<Rightarrow> None
      | c # r \<Rightarrow>
          if c = CHR ''-'' then map_option uminus (literal r)
          else if c = CHR ''+'' then literal r
          else literal (c # r))"

section \<open>ranks.py: the rank specification and a Ranks instance\<close>

text \<open>
  A rank specification is the dict \<open>{'suits': {...}, 'cards': {...}}\<close>; either key
  may be missing from a dict the caller supplies.  The inner dicts are association
  lists read with \<open>map_of\<close>.
\<close>

record rank_spec =
  spec_suits :: "(string \<times> int) list option"
  spec_cards :: "(string \<times> int) list option"

record ranks_obj =
  ranks_dict :: rank_spec
  ace_high :: bool
  jokers_on :: bool
  suit_first :: bool

section \<open>card.py\<close>

definition TWO :: string where "TWO = ''2''"
definition THREE :: string where "THREE = ''3''"
definition FOUR :: string where "FOUR = ''4''"
definition FIVE :: string where "FIVE = ''5''"
definition SIX :: string where "SIX = ''6''"
definition SEVEN :: string where "SEVEN = ''7''"
definition EIGHT :: string where "EIGHT = ''8''"
definition NINE :: string where "NINE = ''9''"
definition TEN :: string where "TEN = ''10''"
definition JOKER :: string where "JOKER = ''Joker''"
definition ACE :: string where "ACE = ''Ace''"
definition KING :: string where "KING = ''King''"
definition QUEEN :: string where "QUEEN = ''Queen''"
definition JACK :: string where "JACK = ''Jack''"

text \<open>
  \<open>Faces()\<close> and \<open>Suits()\<close> with no argument.  The constructor spells the pip
  faces out as the literals that the class constants \<open>TWO\<close> ... \<open>TEN\<close> also hold.
\<close>

definition Faces :: "string list" where
  "Faces = [TWO, THREE, FOUR, FIVE, SIX, SEVEN, EIGHT, NINE, TEN, JACK, QUEEN, KING, ACE]"

definition Suits :: "string list" where
  "Suits = [''Clubs'', ''Diamonds'', ''Hearts'', ''Spades'']"

record card =
  face :: string
  suit :: "string option"
  "value" :: int

text \<open>
  \<open>Card.__init__(face, suit, ranks=None, value=None)\<close>, for a face that is a \<open>str\<close>,
  a suit that is a \<open>str\<close> or \<open>None\<close>, and a value that is an \<open>int\<close> or left out;
  for these \<open>str(x)\<close> and \<open>int(x)\<close> return \<open>x\<close>.  A suit is falsy when it is \<open>None\<close>
  or the empty string.  card.py imports nothing, so \<open>set_ranks\<close> raises
  \<open>NameError\<close> at \<open>isinstance(ranks, Ranks)\<close> whenever a \<open>ranks\<close> argument is given.
\<close>

definition norm_suit :: "string option \<Rightarrow> string option" where
  "norm_suit s = (case s of None \<Rightarrow> None | Some x \<Rightarrow> if x = [] then Some x else Some (capitalize x))"

definition face_value :: "string \<Rightarrow> error + int" where
  "face_value f =
     (if f = JOKER then Inr 15
      else if f = ACE then Inr 14
      else if f = KING then Inr 13
      else if f = QUEEN then Inr 12
      else if f = JACK then Inr 11
      else (case py_int f of None \<Rightarrow> Inl ValueError | Some v \<Rightarrow> Inr v))"

definition Card_init ::
  "string \<Rightarrow> string option \<Rightarrow> ranks_obj option \<Rightarrow> int option \<Rightarrow> error + card" where
  "Card_init face0 suit0 ranks0 value0 =
     (let f = capitalize face0; s = norm_suit suit0 in
      case ranks0 of
        Some r \<Rightarrow> Inl NameError
      | None \<Rightarrow>
          (case value0 of
             Some v \<Rightarrow> Inr \<lparr>face = f, suit = s, value = v\<rparr>
           | None \<Rightarrow>
               (case face_value f of
                  Inl e \<Rightarrow> Inl e
                | Inr v \<Rightarrow> Inr \<lparr>face = f, suit = s, value = v\<rparr>)))"


text \<open>
  The \<open>name\<close> property tests \<open>self.value == Faces.JOKER\<close>, an \<open>int\<close> against the
  string \<open>'Joker'\<close>; Python answers \<open>False\<close> to that for every integer.
\<close>

definition int_eq_str :: "int \<Rightarrow> string \<Rightarrow> bool" where
  "int_eq_str i s = False"

definition str_of_suit :: "string option \<Rightarrow> string" where
  "str_of_suit s = (case s of None \<Rightarrow> ''None'' | Some x \<Rightarrow> x)"

definition Card_name :: "card \<Rightarrow> string" where
  "Card_name c =
     (if int_eq_str (value c) JOKER then ''Joker''
      else face c @ '' of '' @ str_of_suit (suit c))"

section \<open>ranks.py: the derived table\<close>

text \<open>
  \<open>Ranks._values\<close> is a dict created once in the class body.  No method assigns
  \<open>self._values\<close>, so every instance reads and updates that one dict: it is a piece of
  global state, passed to and returned from the functions that touch it.  A rank is a
  rational number: \<open>suitvalue / 100\<close> is kept exact.
\<close>

type_synonym values_tbl = "string \<Rightarrow> (string \<Rightarrow> rat option) option"

definition default_ranks :: rank_spec where
  "default_ranks =
     \<lparr>spec_suits = Some [(''Diamonds'', 0), (''Hearts'', 0), (''Spades'', 0), (''Clubs'', 0)],
      spec_cards = Some [(''Ace'', 14), (''King'', 13), (''Queen'', 12), (''Jack'', 11),
        (''10'', 10), (''9'', 9), (''8'', 8), (''7'', 7), (''6'', 6), (''5'', 5), (''4'', 4),
        (''3'', 3), (''2'', 2)]\<rparr>"

definition ebind :: "error + 'a \<Rightarrow> ('a \<Rightarrow> error + 'b) \<Rightarrow> error + 'b" where
  "ebind m f = (case m of Inl e \<Rightarrow> Inl e | Inr x \<Rightarrow> f x)"

definition check_ranks_dict :: "rank_spec \<Rightarrow> error + bool" where
  "check_ranks_dict r =
     (if spec_suits r = None \<or> spec_cards r = None then Inl ValueError else Inr True)"

definition rank_value :: "bool \<Rightarrow> int \<Rightarrow> int \<Rightarrow> rat" where
  "rank_value sf suitvalue cardvalue =
     (if sf then of_int (suitvalue * cardvalue)
      else if suitvalue \<noteq> 0 then of_int cardvalue + of_int suitvalue / 100
      else of_int cardvalue)"

fun cards_loop ::
  "bool \<Rightarrow> int \<Rightarrow> (string \<times> int) list \<Rightarrow> string list \<Rightarrow> (string \<Rightarrow> rat option)
     \<Rightarrow> error + (string \<Rightarrow> rat option)" where
  "cards_loop sf sv cs [] row = Inr row"
| "cards_loop sf sv cs (k # ks) row =
     (case map_of cs k of
        None \<Rightarrow> Inl KeyError
      | Some cv \<Rightarrow> cards_loop sf sv cs ks (row(k \<mapsto> rank_value sf sv cv)))"

fun suits_loop ::
  "ranks_obj \<Rightarrow> (string \<times> int) list \<Rightarrow> string list \<Rightarrow> values_tbl \<Rightarrow> error + values_tbl" where
  "suits_loop self ss [] V = Inr V"
| "suits_loop self ss (s # rest) V =
     (case map_of ss s of
        None \<Rightarrow> Inl KeyError
      | Some sv \<Rightarrow>
          (let V1 = (if V s = None then V(s \<mapsto> Map.empty) else V) in
           case spec_cards (ranks_dict self) of
             None \<Rightarrow> Inl KeyError
           | Some cs \<Rightarrow>
               (case V1 s of
                  None \<Rightarrow> Inl KeyError
                | Some row \<Rightarrow>
                    (case cards_loop (suit_first self) sv cs (map fst cs) row of
                       Inl e \<Rightarrow> Inl e
                     | Inr row' \<Rightarrow> suits_loop self ss rest (V1(s \<mapsto> row'))))))"

definition build_ranks :: "values_tbl \<Rightarrow> ranks_obj \<Rightarrow> error + values_tbl" where
  "build_ranks V self =
     (case spec_suits (ranks_dict self) of
        None \<Rightarrow> Inl KeyError
      | Some ss \<Rightarrow> suits_loop self ss (map fst ss) V)"

text \<open>
  \<open>Ranks.__init__(ranks, ace_high, suit_first, jokers)\<close>.  With \<open>ace_high\<close> false the
  constructor evaluates \<open>CardNames.ACE\<close>; nothing in ranks.py defines \<open>CardNames\<close>,
  so that is a \<open>NameError\<close>, raised before anything is stored.  The \<open>jokers\<close>
  argument is never read.
\<close>

definition Ranks_init ::
  "values_tbl \<Rightarrow> rank_spec option \<Rightarrow> bool \<Rightarrow> bool option \<Rightarrow> bool option
     \<Rightarrow> error + (ranks_obj \<times> values_tbl)" where
  "Ranks_init V ranks0 ace_high0 suit_first0 jokers0 =
     ebind (case ranks0 of
              None \<Rightarrow> Inr default_ranks
            | Some r \<Rightarrow> ebind (check_ranks_dict r) (\<lambda>ok. Inr (if ok then r else default_ranks)))
       (\<lambda>rk.
          if \<not> ace_high0 then Inl NameError
          else
            (let self = \<lparr>ranks_dict = rk, ace_high = True, jokers_on = False,
                         suit_first = (case suit_first0 of None \<Rightarrow> False | Some b \<Rightarrow> b)\<rparr>
             in ebind (build_ranks V self) (\<lambda>V'. Inr (self, V'))))"

text \<open>The instance that \<open>Ranks()\<close> makes.\<close>

definition Ranks_default :: ranks_obj where
  "Ranks_default =
     \<lparr>ranks_dict = default_ranks, ace_high = True, jokers_on = False, suit_first = False\<rparr>"

text \<open>
  \<open>get_card_rank\<close> returns a number, or for a Joker whatever \<open>_values['Joker']\<close> holds
  (a row of the table).  Its last test reads \<open>card.card\<close>; a Card has the attributes
  \<open>face\<close>, \<open>suit\<close> and \<open>value\<close> and no attribute \<open>card\<close>, so reaching that test raises
  \<open>AttributeError\<close>.
\<close>

datatype rank_result = Rank rat | Row "string \<Rightarrow> rat option"

definition get_card_rank :: "values_tbl \<Rightarrow> ranks_obj \<Rightarrow> card \<Rightarrow> error + rank_result" where
  "get_card_rank V self c =
     (if Card_name c = ''Joker'' then
        (if jokers_on self then
           (case V ''Joker'' of None \<Rightarrow> Inl KeyError | Some row \<Rightarrow> Inr (Row row))
         else Inr (Rank 0))
      else if (case suit c of None \<Rightarrow> True | Some s \<Rightarrow> V s = None) then Inr (Rank 0)
      else Inl AttributeError)"

text \<open>The entry \<open>_values[suit][face]\<close> of the shared table, if there is one.\<close>

definition table_entry :: "values_tbl \<Rightarrow> string \<Rightarrow> string \<Rightarrow> rat option" where
  "table_entry V s f = (case V s of None \<Rightarrow> None | Some row \<Rightarrow> row f)"

section \<open>stack.py\<close>

text \<open>
  A slot of a Python list or deque holds \<open>None\<close> or a Card.  The \<open>cards\<close> attribute of
  a Stack is a deque after the constructor, \<open>build\<close>, \<open>add\<close> and \<open>deal\<close>, and a plain
  list after \<open>empty\<close>, \<open>reverse\<close>, \<open>insert_list\<close> and \<open>sort\<close>: \<open>held\<close> says which,
  and \<open>cards\<close> is the content, left end (the bottom, index 0) first.  \<open>ranks\<close> is the
  attached Ranks object, if any.
\<close>

type_synonym item = "card option"

datatype pile_end = TOP | BOTTOM

datatype holder = Deque | PyList

record stack =
  cards :: "item list"
  held :: holder
  ranks :: "ranks_obj option"

text \<open>
  What a caller can pass as \<open>cards=\<close> to \<open>Stack.__init__\<close>: nothing, a list, a deque,
  or a Stack or Deck object (given by the contents of its \<open>cards\<close> attribute).
  A list is wrapped in a deque.  Anything else goes to \<open>getattr(cards, 'cards')\<close>:
  a deque has no such attribute (\<open>AttributeError\<close>); a Stack with cards reaches
  \<open>deepcopy\<close>, which stack.py never imports (\<open>NameError\<close>); a Stack without cards
  is falsy there and gets the constructor's own \<open>ValueError\<close>.
\<close>

datatype cards_arg = NoCards | ListArg "item list" | DequeArg "item list" | StackArg "item list"

definition Stack_init :: "cards_arg \<Rightarrow> ranks_obj option \<Rightarrow> error + stack" where
  "Stack_init cards0 ranks0 =
     (case cards0 of
        NoCards \<Rightarrow> Inr \<lparr>cards = [], held = Deque, ranks = ranks0\<rparr>
      | ListArg xs \<Rightarrow> Inr \<lparr>cards = xs, held = Deque, ranks = ranks0\<rparr>
      | DequeArg xs \<Rightarrow> Inl AttributeError
      | StackArg xs \<Rightarrow> if xs \<noteq> [] then Inl NameError else Inl ValueError)"

text \<open>
  \<open>__getitem__\<close> with an integer key, and with a slice \<open>start:stop\<close> of step 1, which
  reads \<open>self[i]\<close> for each \<open>i\<close> of \<open>range(*key.indices(len))\<close>.  A deque and a list
  accept a negative index themselves, so a key below \<open>-len\<close> is looked up once more
  from the right.
\<close>

definition getitem_int :: "'a stack_scheme \<Rightarrow> int \<Rightarrow> error + item" where
  "getitem_int self key =
     (let self_len = int (length (cards self));
          k = (if key < 0 then key + self_len else key)
      in if k \<ge> self_len then Inl IndexError
         else if 0 \<le> k then Inr (cards self ! nat k)
         else if 0 \<le> k + self_len then Inr (cards self ! nat (k + self_len))
         else Inl IndexError)"

definition slice_bound :: "nat \<Rightarrow> int \<Rightarrow> nat" where
  "slice_bound n i = (if i < 0 then nat (max (i + int n) 0) else min (nat i) n)"

definition slice_indices :: "nat \<Rightarrow> int option \<Rightarrow> int option \<Rightarrow> nat list" where
  "slice_indices n start stop =
     [(case start of None \<Rightarrow> 0 | Some i \<Rightarrow> slice_bound n i) ..<
      (case stop of None \<Rightarrow> n | Some j \<Rightarrow> slice_bound n j)]"

fun getitems :: "'a stack_scheme \<Rightarrow> nat list \<Rightarrow> error + item list" where
  "getitems self [] = Inr []"
| "getitems self (i # js) =
     ebind (getitem_int self (int i)) (\<lambda>x. ebind (getitems self js) (\<lambda>xs. Inr (x # xs)))"

definition getitem_slice :: "'a stack_scheme \<Rightarrow> int option \<Rightarrow> int option \<Rightarrow> error + item list" where
  "getitem_slice self start stop =
     getitems self (slice_indices (length (cards self)) start stop)"

text \<open>
  Iterating a Stack: the class has no \<open>__iter__\<close>, so Python calls \<open>self[0]\<close>,
  \<open>self[1]\<close>, ... until \<open>IndexError\<close>.  The first index that raises is the length,
  so \<open>length + 1\<close> reads are enough.
\<close>

fun seq_iter :: "'a stack_scheme \<Rightarrow> nat \<Rightarrow> nat \<Rightarrow> item list" where
  "seq_iter self 0 i = []"
| "seq_iter self (Suc k) i =
     (case getitem_int self (int i) of Inl e \<Rightarrow> [] | Inr x \<Rightarrow> x # seq_iter self k (Suc i))"

definition iter_stack :: "'a stack_scheme \<Rightarrow> item list" where
  "iter_stack self = seq_iter self (Suc (length (cards self))) 0"

text \<open>
  \<open>empty()\<close> returns the cards as a list and leaves \<open>self.cards = []\<close>, a list.
  \<open>reverse()\<close> assigns the slice \<open>self[::-1]\<close>, the list of \<open>self[i]\<close> for \<open>i\<close> from the
  last index down to 0.
\<close>

definition Stack_empty :: "'a stack_scheme \<Rightarrow> item list \<times> 'a stack_scheme" where
  "Stack_empty self = (cards self, self\<lparr>cards := [], held := PyList\<rparr>)"

definition Stack_reverse :: "'a stack_scheme \<Rightarrow> error + 'a stack_scheme" where
  "Stack_reverse self =
     ebind (getitems self (rev [0..<length (cards self)]))
       (\<lambda>xs. Inr (self\<lparr>cards := xs, held := PyList\<rparr>))"

text \<open>
  \<open>add(cards, end)\<close>: \<open>cards\<close> is a list, a Stack (iterated as above) or a single
  Card; a Card is not iterable, so the \<open>except\<close> branch adds the one-element list.
  \<open>deque.extendleft\<close> pushes the items to the left one at a time.  A list has no
  \<open>extendleft\<close>: at the bottom end the \<open>try\<close> fails on it, and then the \<open>except\<close>
  branch fails on it too.
\<close>

datatype add_arg = AddList "item list" | AddStack stack | AddCard card

definition add_items :: "add_arg \<Rightarrow> item list" where
  "add_items a =
     (case a of AddList xs \<Rightarrow> xs | AddStack s \<Rightarrow> iter_stack s | AddCard c \<Rightarrow> [Some c])"

definition extendleft :: "item list \<Rightarrow> item list \<Rightarrow> item list" where
  "extendleft dq xs = foldl (\<lambda>d x. x # d) dq xs"

definition Stack_add ::
  "'a stack_scheme \<Rightarrow> add_arg \<Rightarrow> pile_end \<Rightarrow> error + 'a stack_scheme" where
  "Stack_add self cards0 e =
     (case e of
        TOP \<Rightarrow> Inr (self\<lparr>cards := cards self @ add_items cards0\<rparr>)
      | BOTTOM \<Rightarrow>
          (case held self of
             Deque \<Rightarrow> Inr (self\<lparr>cards := extendleft (cards self) (add_items cards0)\<rparr>)
           | PyList \<Rightarrow> Inl AttributeError))"

text \<open>
  \<open>deque.pop\<close> (TOP) and \<open>deque.popleft\<close> (BOTTOM); \<open>None\<close> is the \<open>IndexError\<close> of an
  empty deque.  \<open>list_set\<close> is \<open>xs[n] = v\<close> on a Python list; \<open>None\<close> is its
  \<open>IndexError\<close>.
\<close>

fun pop :: "pile_end \<Rightarrow> item list \<Rightarrow> (item \<times> item list) option" where
  "pop TOP xs = (if xs = [] then None else Some (last xs, butlast xs))"
| "pop BOTTOM xs = (case xs of [] \<Rightarrow> None | x # r \<Rightarrow> Some (x, r))"

definition list_set :: "item list \<Rightarrow> int \<Rightarrow> item \<Rightarrow> item list option" where
  "list_set xs n v =
     (let len = int (length xs) in
      if 0 \<le> n \<and> n < len then Some (xs[nat n := v])
      else if n < 0 \<and> 0 \<le> n + len then Some (xs[nat (n + len) := v])
      else None)"

text \<open>
  \<open>Stack.deal(num, end)\<close>, which runs for a plain Stack only (Deck overrides it), so
  \<open>self.__class__\<close> is \<open>Stack\<close>.  Its first statement reads \<open>self.cards.pop\<close> and
  \<open>self.cards.popleft\<close>; a list has no \<open>popleft\<close>.  The \<open>for\<close> loop leaves at the first
  exception, also when the card is already popped.  The result is the returned Stack
  and the Stack itself afterwards.
\<close>

fun deal_for :: "pile_end \<Rightarrow> nat list \<Rightarrow> item list \<Rightarrow> item list \<Rightarrow> item list \<times> item list" where
  "deal_for e [] dq dealt_cards = (dq, dealt_cards)"
| "deal_for e (n # ns) dq dealt_cards =
     (case pop e dq of
        None \<Rightarrow> (dq, dealt_cards)
      | Some (c, dq') \<Rightarrow>
          (case list_set dealt_cards (int n) c of
             None \<Rightarrow> (dq', dealt_cards)
           | Some dealt' \<Rightarrow> deal_for e ns dq' dealt'))"

definition Stack_deal :: "stack \<Rightarrow> int \<Rightarrow> pile_end \<Rightarrow> error + (stack \<times> stack)" where
  "Stack_deal self num e =
     (case held self of
        PyList \<Rightarrow> Inl AttributeError
      | Deque \<Rightarrow>
          (let self_size = int (length (cards self));
               num1 = (if num \<le> self_size then num else self_size);
               dealt_cards = replicate (nat num1) None
           in if self_size \<noteq> 0 then
                (case deal_for e [0..<nat num1] (cards self) dealt_cards of
                   (dq, dealt) \<Rightarrow>
                     ebind (Stack_init (ListArg dealt) (ranks self))
                       (\<lambda>r. Inr (r, self\<lparr>cards := dq\<rparr>)))
              else ebind (Stack_init NoCards (ranks self)) (\<lambda>r. Inr (r, self))))"

text \<open>
  What \<open>k\<close> pops in a row do to a deque: \<open>popped e k xs\<close> lists the items taken from
  end \<open>e\<close> in the order they are taken (as many as there are, at most \<open>k\<close>), and
  \<open>remaining e k xs\<close> is what stays behind.
\<close>

fun popped :: "pile_end \<Rightarrow> nat \<Rightarrow> item list \<Rightarrow> item list" where
  "popped TOP k xs = take k (rev xs)"
| "popped BOTTOM k xs = take k xs"

fun remaining :: "pile_end \<Rightarrow> nat \<Rightarrow> item list \<Rightarrow> item list" where
  "remaining TOP k xs = take (length xs - k) xs"
| "remaining BOTTOM k xs = drop k xs"

text \<open>
  \<open>shuffle(times)\<close> calls \<open>random.shuffle\<close> \<open>times\<close> times.  The generator is a
  parameter: \<open>shuf g\<close> is the rearrangement the \<open>g\<close>-th call of \<open>random.shuffle\<close>
  makes, and the number of calls made so far is threaded through.
\<close>

type_synonym shuffler = "nat \<Rightarrow> item list \<Rightarrow> item list"

fun Stack_shuffle :: "shuffler \<Rightarrow> nat \<Rightarrow> 'a stack_scheme \<Rightarrow> nat \<Rightarrow> 'a stack_scheme \<times> nat" where
  "Stack_shuffle shuf g self 0 = (self, g)"
| "Stack_shuffle shuf g self (Suc t) =
     Stack_shuffle shuf (Suc g) (self\<lparr>cards := shuf g (cards self)\<rparr>) t"

text \<open>
  \<open>compare(cards)\<close> opens with \<open>isinstance(yours, list)\<close>.  \<open>yours\<close> is assigned
  further down, so it is a local of the function, and at that point it holds nothing:
  reading it raises \<open>UnboundLocalError\<close>.  \<open>read_local\<close> reads a local that may be
  unbound.  Had the read succeeded, both branches call \<open>deepcopy\<close>, which stack.py
  does not import.  \<open>__eq__\<close> and \<open>__ne__\<close> call \<open>compare\<close>.
\<close>

definition read_local :: "'a option \<Rightarrow> error + 'a" where
  "read_local v = (case v of None \<Rightarrow> Inl UnboundLocalError | Some x \<Rightarrow> Inr x)"

definition Stack_compare :: "'a stack_scheme \<Rightarrow> cards_arg \<Rightarrow> error + bool" where
  "Stack_compare self cards0 =
     (let yours = (None :: cards_arg option) in
      ebind (read_local yours) (\<lambda>y. Inl NameError))"

definition Stack_eq :: "'a stack_scheme \<Rightarrow> cards_arg \<Rightarrow> error + bool" where
  "Stack_eq self other = Stack_compare self other"

definition Stack_ne :: "'a stack_scheme \<Rightarrow> cards_arg \<Rightarrow> error + bool" where
  "Stack_ne self other = ebind (Stack_compare self other) (\<lambda>b. Inr (\<not> b))"

section \<open>deck.py\<close>

record deck = stack +
  decks :: int
  jokers :: int
  rebuild :: bool
  reshuffle :: bool
  faces :: "string list"
  suits :: "string list"

text \<open>
  \<open>build(faces, suits)\<close>.  \<open>faces or self.faces\<close> takes the Deck's own list when the
  argument is \<open>None\<close> or empty.  The cards are made one by one, and the first
  constructor that raises ends the build with the Deck unchanged.  The new cards are
  put into a fresh deque.
\<close>

fun new_cards :: "(string \<times> string option) list \<Rightarrow> error + card list" where
  "new_cards [] = Inr []"
| "new_cards ((f, s) # rest) =
     ebind (Card_init f s None None) (\<lambda>c. ebind (new_cards rest) (\<lambda>cs. Inr (c # cs)))"

definition or_list :: "string list option \<Rightarrow> string list \<Rightarrow> string list" where
  "or_list a d = (case a of None \<Rightarrow> d | Some xs \<Rightarrow> if xs = [] then d else xs)"

definition Deck_build :: "deck \<Rightarrow> string list option \<Rightarrow> string list option \<Rightarrow> error + deck" where
  "Deck_build self faces0 suits0 =
     (let fs = or_list faces0 (faces self);
          ss = or_list suits0 (suits self)
      in ebind (new_cards (concat (map (\<lambda>f. map (\<lambda>s. (f, Some s)) ss) fs))) (\<lambda>cs.
         ebind (if jokers self \<noteq> 0
                then ebind (new_cards (replicate (nat (jokers self)) (JOKER, None)))
                       (\<lambda>js. Inr (cs @ js))
                else Inr cs) (\<lambda>all_cards.
         Inr (self\<lparr>cards := map Some all_cards, held := Deque\<rparr>))))"

text \<open>
  The \<open>while num > 0\<close> loop of \<open>Deck.deal\<close>.  \<open>rebuild0\<close> is the local \<open>rebuild\<close>;
  \<open>reshuffle0\<close> is the local \<open>reshuffle\<close>, which is bound only when the call passed no
  \<open>shuffle\<close> argument (\<open>None\<close> here is "unbound").  Each round first reads
  \<open>self.cards.pop\<close> and \<open>self.cards.popleft\<close>, outside the \<open>try\<close>; a list has no
  \<open>popleft\<close>.  The bare \<open>except\<close> catches the \<open>IndexError\<close> of an empty deque and of a
  full \<open>dealt_cards\<close> alike; exceptions raised inside the handler leave \<open>deal\<close>.  The
  loop need not end, so the function returns an option and not returning is \<open>None\<close>.
\<close>

partial_function (option) deal_while ::
  "shuffler \<Rightarrow> bool \<Rightarrow> bool option \<Rightarrow> pile_end \<Rightarrow> int \<Rightarrow> deck \<Rightarrow> nat \<Rightarrow> int \<Rightarrow> item list
     \<Rightarrow> (error + (item list \<times> deck \<times> nat)) option" where
  "deal_while shuf rebuild0 reshuffle0 e num0 self g num dealt_cards =
     (if num > 0 then
        (if held self = PyList then Some (Inl AttributeError)
         else
         let n = num0 - num;
             tried = (case pop e (cards self) of
                        None \<Rightarrow> (None, self)
                      | Some (c, dq) \<Rightarrow> (list_set dealt_cards n c, self\<lparr>cards := dq\<rparr>))
         in case tried of
              (Some dealt', self1) \<Rightarrow>
                deal_while shuf rebuild0 reshuffle0 e num0 self1 g (num - 1) dealt'
            | (None, self1) \<Rightarrow>
                if length (cards self1) = 0 then
                  (if rebuild0 then
                     (case Deck_build self1 None None of
                        Inl err \<Rightarrow> Some (Inl err)
                      | Inr self2 \<Rightarrow>
                          (case reshuffle0 of
                             None \<Rightarrow> Some (Inl UnboundLocalError)
                           | Some b \<Rightarrow>
                               if b then
                                 (case Stack_shuffle shuf g self2 1 of
                                    (self3, g') \<Rightarrow>
                                      deal_while shuf rebuild0 reshuffle0 e num0 self3 g' num
                                        dealt_cards)
                               else
                                 deal_while shuf rebuild0 reshuffle0 e num0 self2 g num
                                   dealt_cards))
                   else Some (Inr (dealt_cards, self1, g)))
                else deal_while shuf rebuild0 reshuffle0 e num0 self1 g num dealt_cards)
      else Some (Inr (dealt_cards, self, g)))"

declare deal_while.simps [code]

text \<open>
  \<open>Deck.deal(num, rebuild, shuffle, end)\<close>.  The result is the returned collection,
  always built with \<open>Stack(...)\<close>, the Deck afterwards, and the number of
  \<open>random.shuffle\<close> calls made so far.
\<close>

definition Deck_deal ::
  "shuffler \<Rightarrow> nat \<Rightarrow> deck \<Rightarrow> int \<Rightarrow> bool option \<Rightarrow> bool option \<Rightarrow> pile_end
     \<Rightarrow> (error + (stack \<times> deck \<times> nat)) option" where
  "Deck_deal shuf g self num rebuild_arg shuffle_arg e =
     (let rebuild0 = (case rebuild_arg of None \<Rightarrow> rebuild self | Some b \<Rightarrow> b);
          reshuffle0 = (case shuffle_arg of None \<Rightarrow> Some (reshuffle self) | Some b \<Rightarrow> None);
          self_size = int (length (cards self));
          dealt_cards = (if rebuild0 \<or> num \<le> self_size then replicate (nat num) None
                         else replicate (nat self_size) None)
      in case deal_while shuf rebuild0 reshuffle0 e num self g num dealt_cards of
           None \<Rightarrow> None
         | Some (Inl err) \<Rightarrow> Some (Inl err)
         | Some (Inr (dealt, self', g')) \<Rightarrow>
             Some (ebind (Stack_init (ListArg dealt) (ranks self')) (\<lambda>r. Inr (r, self', g'))))"

text \<open>
  \<open>Deck.__init__\<close>.  Its arguments are collected in a record; \<open>None\<close> is an argument
  left out (for \<open>cards\<close>: \<open>NoCards\<close>).  Without a \<open>ranks\<close> argument the constructor
  makes a \<open>Ranks()\<close>, which writes to the shared table.
\<close>

record deck_args =
  arg_decks :: "int option"
  arg_jokers :: "int option"
  arg_ranks :: "ranks_obj option"
  arg_cards :: cards_arg
  arg_build :: bool
  arg_rebuild :: "bool option"
  arg_reshuffle :: "bool option"
  arg_faces :: "string list option"
  arg_suits :: "string list option"

definition default_args :: deck_args where
  "default_args =
     \<lparr>arg_decks = None, arg_jokers = None, arg_ranks = None, arg_cards = NoCards,
      arg_build = True, arg_rebuild = Some False, arg_reshuffle = Some True,
      arg_faces = None, arg_suits = None\<rparr>"

definition is_given :: "'a option \<Rightarrow> bool" where
  "is_given a = (a \<noteq> None)"

definition count_arg :: "int option \<Rightarrow> int \<Rightarrow> error + int" where
  "count_arg a d = (case a of None \<Rightarrow> Inr d | Some k \<Rightarrow> if k < 0 then Inl ValueError else Inr k)"

definition Deck_init :: "values_tbl \<Rightarrow> deck_args \<Rightarrow> error + (deck \<times> values_tbl)" where
  "Deck_init V a =
     ebind (case arg_ranks a of
              None \<Rightarrow> Ranks_init V None True None None
            | Some r \<Rightarrow> Inr (r, V)) (\<lambda>(rk, V').
     ebind (if arg_cards a \<noteq> NoCards then
              (if is_given (arg_decks a) \<or> is_given (arg_jokers a) then Inl ValueError
               else ebind (Stack_init (arg_cards a) (Some rk)) (\<lambda>s. Inr (s, 1, 0)))
            else
              ebind (Stack_init NoCards (Some rk)) (\<lambda>s.
              ebind (count_arg (arg_decks a) 1) (\<lambda>d.
              ebind (count_arg (arg_jokers a) 0) (\<lambda>j. Inr (s, d, j))))) (\<lambda>(s, d, j).
       (let self = \<lparr>cards = cards s, held = held s, ranks = ranks s, decks = d, jokers = j,
                    rebuild = (case arg_rebuild a of None \<Rightarrow> False | Some b \<Rightarrow> b),
                    reshuffle = (case arg_reshuffle a of None \<Rightarrow> True | Some b \<Rightarrow> b),
                    faces = (case arg_faces a of None \<Rightarrow> Faces | Some f \<Rightarrow> f),
                    suits = (case arg_suits a of None \<Rightarrow> Suits | Some x \<Rightarrow> x)\<rparr>
        in if arg_build a then ebind (Deck_build self None None) (\<lambda>self'. Inr (self', V'))
           else Inr (self, V'))))"

text \<open>
  A collection is a plain Stack or a Deck.  \<open>s.deal(num, end=end)\<close> runs the method of
  its class, and \<open>self.__class__(cards=...)\<close> runs the constructor of its class: for
  a Deck that is \<open>Deck(cards=...)\<close> with every other argument at its default, so it
  makes a \<open>Ranks()\<close> and, \<open>build\<close> being true, builds a full deck over the cards
  it was given.
\<close>

datatype pile = StackObj stack | DeckObj deck

datatype cls = Stack_cls | Deck_cls

fun class_of :: "pile \<Rightarrow> cls" where
  "class_of (StackObj s) = Stack_cls"
| "class_of (DeckObj d) = Deck_cls"

fun pile_cards :: "pile \<Rightarrow> item list" where
  "pile_cards (StackObj s) = cards s"
| "pile_cards (DeckObj d) = cards d"

definition deal ::
  "shuffler \<Rightarrow> nat \<Rightarrow> pile \<Rightarrow> int \<Rightarrow> pile_end \<Rightarrow> (error + (pile \<times> pile)) option" where
  "deal shuf g p num e =
     (case p of
        StackObj s \<Rightarrow>
          Some (ebind (Stack_deal s num e) (\<lambda>(r, s'). Inr (StackObj r, StackObj s')))
      | DeckObj d \<Rightarrow>
          (case Deck_deal shuf g d num None None e of
             None \<Rightarrow> None
           | Some res \<Rightarrow> Some (ebind res (\<lambda>(r, d', g'). Inr (StackObj r, DeckObj d')))))"

definition new_like :: "values_tbl \<Rightarrow> pile \<Rightarrow> cards_arg \<Rightarrow> error + (pile \<times> values_tbl)" where
  "new_like V self a =
     (case self of
        StackObj s \<Rightarrow> ebind (Stack_init a None) (\<lambda>x. Inr (StackObj x, V))
      | DeckObj d \<Rightarrow>
          ebind (Deck_init V (default_args\<lparr>arg_cards := a\<rparr>)) (\<lambda>(x, V'). Inr (DeckObj x, V')))"

fun pile_slice :: "pile \<Rightarrow> int option \<Rightarrow> int option \<Rightarrow> error + item list" where
  "pile_slice (StackObj s) start stop = getitem_slice s start stop"
| "pile_slice (DeckObj d) start stop = getitem_slice d start stop"

fun pile_held :: "pile \<Rightarrow> holder" where
  "pile_held (StackObj s) = held s"
| "pile_held (DeckObj d) = held d"

text \<open>
  \<open>split(indice)\<close>, which Deck inherits.  Two of its branches pass \<open>self.cards\<close>
  itself, a deque or a list, to the constructor.  The table of ranks is threaded
  through because the Deck constructor writes to it.
\<close>

definition self_cards :: "pile \<Rightarrow> cards_arg" where
  "self_cards self =
     (case pile_held self of
        Deque \<Rightarrow> DequeArg (pile_cards self)
      | PyList \<Rightarrow> ListArg (pile_cards self))"

definition split_pair ::
  "values_tbl \<Rightarrow> pile \<Rightarrow> error + cards_arg \<Rightarrow> error + cards_arg
     \<Rightarrow> error + (pile \<times> pile \<times> values_tbl)" where
  "split_pair V self first second =
     ebind first (\<lambda>a.
     ebind (new_like V self a) (\<lambda>(x, V1).
     ebind second (\<lambda>b.
     ebind (new_like V1 self b) (\<lambda>(y, V2). Inr (x, y, V2)))))"

definition slice_arg :: "pile \<Rightarrow> int option \<Rightarrow> int option \<Rightarrow> error + cards_arg" where
  "slice_arg self start stop = ebind (pile_slice self start stop) (\<lambda>xs. Inr (ListArg xs))"

definition Stack_split ::
  "values_tbl \<Rightarrow> pile \<Rightarrow> int option \<Rightarrow> error + (pile \<times> pile \<times> values_tbl)" where
  "Stack_split V self indice =
     (let num_cards = int (length (pile_cards self)) in
      case indice of
        None \<Rightarrow>
          (let midpoint = num_cards div 2 in
           split_pair V self (slice_arg self (Some 0) (Some midpoint))
             (slice_arg self (Some midpoint) None))
      | Some i \<Rightarrow>
          if i \<ge> num_cards then
            split_pair V self (Inr (self_cards self)) (Inr NoCards)
          else if i < 0 \<and> \<bar>i\<bar> \<ge> num_cards then
            split_pair V self (Inr NoCards) (Inr (self_cards self))
          else if i < 0 \<and> \<bar>i\<bar> \<le> num_cards then
            split_pair V self (slice_arg self (Some i) None)
              (slice_arg self (Some 0) (Some \<bar>i\<bar>))
          else
            split_pair V self (slice_arg self (Some 0) (Some i))
              (slice_arg self (Some i) None))"

section \<open>Card construction\<close>

lemma upper_char_idem: "upper_char (upper_char c) = upper_char c"
proof -
  have "of_char c < (256::nat)" by simp
  then show ?thesis
    by (auto simp: upper_char_def Let_def)
qed

lemma lower_char_idem: "lower_char (lower_char c) = lower_char c"
proof -
  have "of_char c < (256::nat)" by simp
  then show ?thesis
    by (auto simp: lower_char_def Let_def)
qed

lemma capitalize_idem: "capitalize (capitalize f) = capitalize f"
  by (cases f) (simp_all add: upper_char_idem lower_char_idem)

lemma capitalize_Nil_iff: "capitalize x = [] \<longleftrightarrow> x = []"
  by (cases x) simp_all

lemma norm_suit_idem: "norm_suit (norm_suit s) = norm_suit s"
  by (cases s) (simp_all add: norm_suit_def capitalize_idem capitalize_Nil_iff)

lemma Card_init_canonical:
  "Card_init (capitalize f) (norm_suit s) r v = Card_init f s r v"
  by (simp add: Card_init_def capitalize_idem norm_suit_idem)

lemma Card_init_face_value:
  "Card_init f s None None =
     (case face_value (capitalize f) of
        Inl e \<Rightarrow> Inl e
      | Inr v \<Rightarrow> Inr \<lparr>face = capitalize f, suit = norm_suit s, value = v\<rparr>)"
  by (simp add: Card_init_def Let_def)

text \<open>With a \<open>ranks\<close> argument the constructor raises before it derives anything.\<close>

lemma Card_init_ranks_arg: "Card_init f s (Some r) v = Inl NameError"
  by (simp add: Card_init_def Let_def)

lemma named_caps:
  "capitalize JOKER = JOKER" "capitalize ACE = ACE" "capitalize KING = KING"
  "capitalize QUEEN = QUEEN" "capitalize JACK = JACK"
  by code_simp+

lemma digit_caps:
  "capitalize ''2'' = ''2''" "capitalize ''3'' = ''3''" "capitalize ''4'' = ''4''"
  "capitalize ''5'' = ''5''" "capitalize ''6'' = ''6''" "capitalize ''7'' = ''7''"
  "capitalize ''8'' = ''8''" "capitalize ''9'' = ''9''" "capitalize ''10'' = ''10''"
  by code_simp+

lemma face_values:
  "face_value ''Joker'' = Inr 15" "face_value ''Ace'' = Inr 14" "face_value ''King'' = Inr 13"
  "face_value ''Queen'' = Inr 12" "face_value ''Jack'' = Inr 11" "face_value ''10'' = Inr 10"
  "face_value ''9'' = Inr 9" "face_value ''8'' = Inr 8" "face_value ''7'' = Inr 7"
  "face_value ''6'' = Inr 6" "face_value ''5'' = Inr 5" "face_value ''4'' = Inr 4"
  "face_value ''3'' = Inr 3" "face_value ''2'' = Inr 2"
  by code_simp+

subsection \<open>What \<open>int()\<close> accepts\<close>

lemma digit_not_space: "is_digit c \<Longrightarrow> \<not> is_space c"
  by (auto simp: is_digit_def is_space_def)

lemma digit_not_mark:
  "is_digit c \<Longrightarrow> c \<noteq> CHR ''_'' \<and> c \<noteq> CHR ''+'' \<and> c \<noteq> CHR ''-''"
  by (auto simp: is_digit_def)

lemma digit_case: "is_digit c \<Longrightarrow> upper_char c = c \<and> lower_char c = c"
  by (auto simp: is_digit_def upper_char_def lower_char_def Let_def)

lemma digits_ok_all: "ds \<noteq> [] \<Longrightarrow> list_all is_digit ds \<Longrightarrow> digits_ok ds"
  by (induction ds rule: digits_ok.induct) (auto dest: digit_not_mark)

lemma digits_ok_chars: "digits_ok ds \<Longrightarrow> c \<in> set ds \<Longrightarrow> is_digit c \<or> c = CHR ''_''"
  by (induction ds rule: digits_ok.induct) (auto split: if_splits)

lemma filter_digits: "list_all is_digit ds \<Longrightarrow> filter is_digit ds = ds"
  by (induction ds) simp_all

lemma dropWhile_keeps: "c \<in> set xs \<Longrightarrow> \<not> P c \<Longrightarrow> c \<in> set (dropWhile P xs)"
  by (induction xs) auto

lemma strip_keeps: "c \<in> set s \<Longrightarrow> \<not> is_space c \<Longrightarrow> c \<in> set (strip s)"
  by (simp add: strip_def dropWhile_keeps)

lemma strip_digits: "ds \<noteq> [] \<Longrightarrow> list_all is_digit ds \<Longrightarrow> strip ds = ds"
proof -
  assume ne: "ds \<noteq> []" and all: "list_all is_digit ds"
  from ne all have "\<not> is_space (hd ds)"
    by (cases ds) (auto dest: digit_not_space)
  then have a: "dropWhile is_space ds = ds"
    using ne by (cases ds) simp_all
  from ne all have "\<not> is_space (last ds)"
    by (auto simp: list_all_iff dest: digit_not_space)
  then have "\<not> is_space (hd (rev ds))"
    using ne by (simp add: hd_rev)
  then have "dropWhile is_space (rev ds) = rev ds"
    using ne by (cases "rev ds") simp_all
  then show ?thesis by (simp add: strip_def a)
qed

lemma capitalize_digits: "list_all is_digit ds \<Longrightarrow> capitalize ds = ds"
proof (cases ds)
  case Nil
  then show ?thesis by simp
next
  case (Cons c cs)
  assume "list_all is_digit ds"
  then have "upper_char c = c" and "map lower_char cs = cs"
    using Cons by (auto simp: list_all_iff digit_case intro: map_idI)
  then show ?thesis using Cons by simp
qed

lemma py_int_digits:
  assumes "ds \<noteq> []" "list_all is_digit ds" "length ds \<le> max_str_digits"
  shows "py_int ds = Some (decimal ds)"
proof -
  obtain c r where ds: "ds = c # r" using assms(1) by (cases ds) auto
  have c: "is_digit c" using assms(2) ds by simp
  have "literal ds = Some (decimal ds)"
    using assms by (simp add: literal_def digits_ok_all filter_digits)
  then show ?thesis
    using digit_not_mark [OF c] strip_digits [OF assms(1,2)] ds
    by (simp add: py_int_def)
qed

lemma py_int_too_long:
  assumes "list_all is_digit ds" "max_str_digits < length ds"
  shows "py_int ds = None"
proof -
  have ne: "ds \<noteq> []" using assms(2) by auto
  then obtain c r where ds: "ds = c # r" by (cases ds) auto
  have c: "is_digit c" using assms(1) ds by simp
  have "literal ds = None"
    using assms by (simp add: literal_def filter_digits)
  then show ?thesis
    using digit_not_mark [OF c] strip_digits [OF ne assms(1)] ds
    by (simp add: py_int_def)
qed

lemma literal_bad_char:
  "c \<in> set ds \<Longrightarrow> \<not> is_digit c \<Longrightarrow> c \<noteq> CHR ''_'' \<Longrightarrow> literal ds = None"
  using digits_ok_chars [of ds c] by (auto simp: literal_def)

lemma py_int_bad_char:
  assumes "c \<in> set s" "\<not> is_digit c" "\<not> is_space c"
    and "c \<noteq> CHR ''_''" "c \<noteq> CHR ''+''" "c \<noteq> CHR ''-''"
  shows "py_int s = None"
proof (cases "strip s")
  case Nil
  then show ?thesis by (simp add: py_int_def)
next
  case (Cons a r)
  have inn: "c \<in> set (a # r)" using strip_keeps [OF assms(1,3)] Cons by simp
  show ?thesis
  proof (cases "a = CHR ''-'' \<or> a = CHR ''+''")
    case True
    then have "c \<in> set r" using inn assms(5,6) by auto
    then have "literal r = None" using assms(2,4) by (rule literal_bad_char)
    then show ?thesis using True Cons by (auto simp: py_int_def)
  next
    case False
    have "literal (a # r) = None" using inn assms(2,4) by (rule literal_bad_char)
    then show ?thesis using False Cons by (simp add: py_int_def)
  qed
qed

lemma named_not_digits:
  "ds \<noteq> [] \<Longrightarrow> list_all is_digit ds \<Longrightarrow> ds \<notin> set [JOKER, ACE, KING, QUEEN, JACK]"
  by (cases ds)
     (auto simp: JOKER_def ACE_def KING_def QUEEN_def JACK_def is_digit_def)

lemma Card_init_value:
  "map_sum id value (Card_init f s None None) = face_value (capitalize f)"
  by (simp add: Card_init_face_value split: sum.splits)

lemma parsed_faces:
  "map (\<lambda>n. face_value (capitalize n))
     ['' 7 '', [CHR 0x09, CHR ''7'', CHR 0x0A], ''-3'', ''+4'', ''007'', ''1_0'', ''_1'', ''1__0'',
      ''1_'', ''+ 4'', ''1.5'', [CHR 0x1C, CHR ''7''], '''']
   = [Inr 7, Inr 7, Inr (- 3), Inr 4, Inr 7, Inr 10, Inl ValueError, Inl ValueError,
      Inl ValueError, Inl ValueError, Inl ValueError, Inl ValueError, Inl ValueError]"
  by code_simp

text \<open>
  Claim C8, as amended.  The statement is about a Card made without \<open>ranks\<close> and
  \<open>value\<close> arguments from an ASCII face.  It gets the value of the fixed table for
  the fourteen standard faces (Joker 15, Ace 14, King 13, Queen 12, Jack 11, and
  \<open>'10'\<close> down to \<open>'2'\<close> their own numbers).  Construction fails exactly when the
  capitalized face is none of Joker, Ace, King, Queen, Jack and \<open>int()\<close> cannot parse
  it; the failure is a \<open>ValueError\<close>, and a face that is parsed gets the parsed
  integer as its value.  There is no range check: every face made of one or more
  decimal digits, up to the limit of 4300 digits, is accepted with the number it
  spells; a face of more digits is refused, and so is a face other than the five
  names that holds a character which is no digit, space, sign or underscore.  Around the digits \<open>int()\<close> takes white space, one
  sign in front and single underscores between digits, as the last part shows on
  examples.
\<close>

theorem Card_init_derived_value:
  assumes "is_ascii f"
  shows
  "list_all (\<lambda>(n, v). case Card_init n s None None of
                        Inl e \<Rightarrow> False
                      | Inr c \<Rightarrow> face c = n \<and> value c = v)
     [(''Joker'', 15), (''Ace'', 14), (''King'', 13), (''Queen'', 12), (''Jack'', 11),
      (''10'', 10), (''9'', 9), (''8'', 8), (''7'', 7), (''6'', 6), (''5'', 5), (''4'', 4),
      (''3'', 3), (''2'', 2)] \<and>
   (isl (Card_init f s None None) \<longleftrightarrow>
      capitalize f \<notin> set [JOKER, ACE, KING, QUEEN, JACK] \<and> py_int (capitalize f) = None) \<and>
   (case Card_init f s None None of
      Inl e \<Rightarrow> e = ValueError
    | Inr c \<Rightarrow> capitalize f \<in> set [JOKER, ACE, KING, QUEEN, JACK] \<or>
              py_int (capitalize f) = Some (value c)) \<and>
   (f \<noteq> [] \<and> list_all is_digit f \<and> length f \<le> max_str_digits \<longrightarrow>
      (case Card_init f s None None of
         Inl e \<Rightarrow> False
       | Inr c \<Rightarrow> face c = f \<and> value c = decimal f)) \<and>
   (capitalize f \<notin> set [JOKER, ACE, KING, QUEEN, JACK] \<and>
    (\<exists>c \<in> set (capitalize f). \<not> is_digit c \<and> \<not> is_space c \<and>
        c \<noteq> CHR ''_'' \<and> c \<noteq> CHR ''+'' \<and> c \<noteq> CHR ''-'') \<longrightarrow>
      Card_init f s None None = Inl ValueError) \<and>
   max_str_digits = 4300 \<and>
   (list_all is_digit f \<and> max_str_digits < length f \<longrightarrow>
      Card_init f s None None = Inl ValueError) \<and>
   map (\<lambda>n. map_sum id value (Card_init n s None None))
     ['' 7 '', [CHR 0x09, CHR ''7'', CHR 0x0A], ''-3'', ''+4'', ''007'', ''1_0'', ''_1'', ''1__0'',
      ''1_'', ''+ 4'', ''1.5'', [CHR 0x1C, CHR ''7''], '''']
   = [Inr 7, Inr 7, Inr (- 3), Inr 4, Inr 7, Inr 10, Inl ValueError, Inl ValueError,
      Inl ValueError, Inl ValueError, Inl ValueError, Inl ValueError, Inl ValueError]"
proof (intro conjI impI)
  show "map (\<lambda>n. map_sum id value (Card_init n s None None))
     ['' 7 '', [CHR 0x09, CHR ''7'', CHR 0x0A], ''-3'', ''+4'', ''007'', ''1_0'', ''_1'', ''1__0'',
      ''1_'', ''+ 4'', ''1.5'', [CHR 0x1C, CHR ''7''], '''']
   = [Inr 7, Inr 7, Inr (- 3), Inr 4, Inr 7, Inr 10, Inl ValueError, Inl ValueError,
      Inl ValueError, Inl ValueError, Inl ValueError, Inl ValueError, Inl ValueError]"
    unfolding Card_init_value by (rule parsed_faces)
  show "max_str_digits = 4300" by (simp add: max_str_digits_def)
next
  assume d: "list_all is_digit f \<and> max_str_digits < length f"
  then have ne: "f \<noteq> []" by auto
  have cap: "capitalize f = f" using d by (simp add: capitalize_digits)
  have "f \<notin> set [JOKER, ACE, KING, QUEEN, JACK]"
    using d ne by (intro named_not_digits) simp_all
  moreover have "py_int f = None"
    using d by (intro py_int_too_long) simp_all
  ultimately have "face_value f = Inl ValueError"
    by (simp add: face_value_def)
  then show "Card_init f s None None = Inl ValueError"
    by (simp add: Card_init_face_value cap)
next
  show "list_all (\<lambda>(n, v). case Card_init n s None None of
                        Inl e \<Rightarrow> False
                      | Inr c \<Rightarrow> face c = n \<and> value c = v)
     [(''Joker'', 15), (''Ace'', 14), (''King'', 13), (''Queen'', 12), (''Jack'', 11),
      (''10'', 10), (''9'', 9), (''8'', 8), (''7'', 7), (''6'', 6), (''5'', 5), (''4'', 4),
      (''3'', 3), (''2'', 2)]"
    using named_caps digit_caps face_values
    by (simp add: Card_init_face_value JOKER_def ACE_def KING_def QUEEN_def JACK_def
        del: capitalize.simps)
  show "isl (Card_init f s None None) \<longleftrightarrow>
      capitalize f \<notin> set [JOKER, ACE, KING, QUEEN, JACK] \<and> py_int (capitalize f) = None"
    by (auto simp: Card_init_face_value face_value_def split: option.splits)
  show "case Card_init f s None None of
      Inl e \<Rightarrow> e = ValueError
    | Inr c \<Rightarrow> capitalize f \<in> set [JOKER, ACE, KING, QUEEN, JACK] \<or>
              py_int (capitalize f) = Some (value c)"
    by (auto simp: Card_init_face_value face_value_def split: option.splits)
next
  assume d: "f \<noteq> [] \<and> list_all is_digit f \<and> length f \<le> max_str_digits"
  then have cap: "capitalize f = f" by (simp add: capitalize_digits)
  have "f \<notin> set [JOKER, ACE, KING, QUEEN, JACK]"
    using d by (intro named_not_digits) simp_all
  moreover have "py_int f = Some (decimal f)"
    using d by (intro py_int_digits) simp_all
  ultimately have "face_value f = Inr (decimal f)"
    by (simp add: face_value_def)
  then show "case Card_init f s None None of
         Inl e \<Rightarrow> False
       | Inr c \<Rightarrow> face c = f \<and> value c = decimal f"
    by (simp add: Card_init_face_value cap)
next
  assume b: "capitalize f \<notin> set [JOKER, ACE, KING, QUEEN, JACK] \<and>
    (\<exists>c \<in> set (capitalize f). \<not> is_digit c \<and> \<not> is_space c \<and>
        c \<noteq> CHR ''_'' \<and> c \<noteq> CHR ''+'' \<and> c \<noteq> CHR ''-'')"
  then have "py_int (capitalize f) = None"
    by (auto intro: py_int_bad_char)
  then show "Card_init f s None None = Inl ValueError"
    using b by (simp add: Card_init_face_value face_value_def)
qed

lemma eleven_is_ascii: "is_ascii ''11''"
  by code_simp

lemma knight_is_ascii: "is_ascii ''knight''"
  by code_simp

lemma eleven_digits:
  "''11'' \<noteq> [] \<and> list_all is_digit ''11'' \<and> length ''11'' \<le> max_str_digits \<and>
   decimal ''11'' = 11"
  by code_simp

lemma knight_letters:
  "capitalize ''knight'' = ''Knight'' \<and>
   ''Knight'' \<notin> set [JOKER, ACE, KING, QUEEN, JACK] \<and>
   \<not> is_digit CHR ''K'' \<and> \<not> is_space CHR ''K''"
  by code_simp

lemma long_digits:
  "is_ascii (replicate 4301 CHR ''1'') \<and>
   list_all is_digit (replicate 4301 CHR ''1'') \<and>
   max_str_digits < length (replicate 4301 CHR ''1'')"
  by (simp add: is_ascii_def is_digit_def max_str_digits_def list_all_iff)

theorem Card_init_derived_value_witness:
  "is_ascii ''11'' \<and>
   (''11'' \<noteq> [] \<and> list_all is_digit ''11'' \<and> length ''11'' \<le> max_str_digits) \<and>
   (case Card_init ''11'' (Some ''Spades'') None None of
      Inl e \<Rightarrow> False
    | Inr c \<Rightarrow> face c = ''11'' \<and> value c = 11) \<and>
   is_ascii ''knight'' \<and>
   capitalize ''knight'' \<notin> set [JOKER, ACE, KING, QUEEN, JACK] \<and>
   (\<exists>c \<in> set (capitalize ''knight''). \<not> is_digit c \<and> \<not> is_space c \<and>
        c \<noteq> CHR ''_'' \<and> c \<noteq> CHR ''+'' \<and> c \<noteq> CHR ''-'') \<and>
   Card_init ''knight'' (Some ''Spades'') None None = Inl ValueError \<and>
   is_ascii (replicate 4301 CHR ''1'') \<and>
   (list_all is_digit (replicate 4301 CHR ''1'') \<and>
    max_str_digits < length (replicate 4301 CHR ''1'')) \<and>
   Card_init (replicate 4301 CHR ''1'') (Some ''Spades'') None None = Inl ValueError"
proof -
  note c = Card_init_derived_value [OF conjunct1 [OF long_digits], of "Some ''Spades''"]
  have lg: "list_all is_digit (replicate 4301 CHR ''1'') \<and>
    max_str_digits < length (replicate 4301 CHR ''1'')"
    using long_digits by blast
  from c lg have three:
    "Card_init (replicate 4301 CHR ''1'') (Some ''Spades'') None None = Inl ValueError"
    by blast
  note a = Card_init_derived_value [OF eleven_is_ascii, of "Some ''Spades''"]
  note b = Card_init_derived_value [OF knight_is_ascii, of "Some ''Spades''"]
  have d: "''11'' \<noteq> [] \<and> list_all is_digit ''11'' \<and> length ''11'' \<le> max_str_digits"
    using eleven_digits by blast
  have k: "capitalize ''knight'' \<notin> set [JOKER, ACE, KING, QUEEN, JACK] \<and>
    (\<exists>c \<in> set (capitalize ''knight''). \<not> is_digit c \<and> \<not> is_space c \<and>
        c \<noteq> CHR ''_'' \<and> c \<noteq> CHR ''+'' \<and> c \<noteq> CHR ''-'')"
    using knight_letters by (auto simp del: capitalize.simps)
  from a d have "case Card_init ''11'' (Some ''Spades'') None None of
      Inl e \<Rightarrow> False
    | Inr c \<Rightarrow> face c = ''11'' \<and> value c = decimal ''11''"
    by blast
  then have one: "case Card_init ''11'' (Some ''Spades'') None None of
      Inl e \<Rightarrow> False
    | Inr c \<Rightarrow> face c = ''11'' \<and> value c = 11"
    using eleven_digits by (simp only:)
  from b k have two: "Card_init ''knight'' (Some ''Spades'') None None = Inl ValueError"
    by blast
  show ?thesis
    using eleven_is_ascii knight_is_ascii d k one two three lg conjunct1 [OF long_digits]
    by blast
qed

text \<open>
  The claim as written fails at the face \<open>'11'\<close>: it is not one of the five named
  faces and not an integer from 2 to 10, yet the Card is built, with value 11.
\<close>

theorem Card_init_out_of_range_counterexample:
  "Card_init ''11'' (Some ''Spades'') None None =
     Inr \<lparr>face = ''11'', suit = Some ''Spades'', value = 11\<rparr> \<and>
   ''11'' \<notin> set [JOKER, ACE, KING, QUEEN, JACK] \<and>
   py_int ''11'' = Some 11 \<and> (11 :: int) \<notin> {2..10}"
  by code_simp

subsection \<open>What \<open>capitalize()\<close> does\<close>

lemma lower_letters:
  "(of_char ` set ''abcdefghijklmnopqrstuvwxyz'' :: nat set) = {97..122}"
  by code_simp

lemma upper_letters:
  "(of_char ` set ''ABCDEFGHIJKLMNOPQRSTUVWXYZ'' :: nat set) = {65..90}"
  by code_simp

lemma upper_char_other: "ch \<notin> set ''abcdefghijklmnopqrstuvwxyz'' \<Longrightarrow> upper_char ch = ch"
proof -
  assume out: "ch \<notin> set ''abcdefghijklmnopqrstuvwxyz''"
  have "(of_char ch :: nat) \<notin> {97..122}"
  proof
    assume "(of_char ch :: nat) \<in> {97..122}"
    then have "(of_char ch :: nat) \<in> of_char ` set ''abcdefghijklmnopqrstuvwxyz''"
      by (simp only: lower_letters)
    then obtain a where "a \<in> set ''abcdefghijklmnopqrstuvwxyz''"
      and "(of_char ch :: nat) = of_char a" by blast
    then show False using out by simp
  qed
  then show ?thesis by (auto simp: upper_char_def Let_def)
qed

lemma lower_char_other: "ch \<notin> set ''ABCDEFGHIJKLMNOPQRSTUVWXYZ'' \<Longrightarrow> lower_char ch = ch"
proof -
  assume out: "ch \<notin> set ''ABCDEFGHIJKLMNOPQRSTUVWXYZ''"
  have "(of_char ch :: nat) \<notin> {65..90}"
  proof
    assume "(of_char ch :: nat) \<in> {65..90}"
    then have "(of_char ch :: nat) \<in> of_char ` set ''ABCDEFGHIJKLMNOPQRSTUVWXYZ''"
      by (simp only: upper_letters)
    then obtain a where "a \<in> set ''ABCDEFGHIJKLMNOPQRSTUVWXYZ''"
      and "(of_char ch :: nat) = of_char a" by blast
    then show False using out by simp
  qed
  then show ?thesis by (auto simp: lower_char_def Let_def)
qed

lemma letters_mapped:
  "map upper_char ''abcdefghijklmnopqrstuvwxyz'' = ''ABCDEFGHIJKLMNOPQRSTUVWXYZ''"
  "map lower_char ''ABCDEFGHIJKLMNOPQRSTUVWXYZ'' = ''abcdefghijklmnopqrstuvwxyz''"
  by code_simp+

lemma ace_spades:
  "Card_init ''ace'' (Some ''spades'') None None =
     Inr \<lparr>face = ''Ace'', suit = Some ''Spades'', value = 14\<rparr>"
  by code_simp

lemma shouted_joker:
  "Card_init ''JOKER'' None None None = Inr \<lparr>face = ''Joker'', suit = None, value = 15\<rparr>"
  by code_simp

lemma shouted_queen:
  "Card_init ''qUEEN'' (Some ''HEARTS'') None None =
     Inr \<lparr>face = ''Queen'', suit = Some ''Hearts'', value = 12\<rparr>"
  by code_simp

text \<open>
  Claim C10, for a face that is ASCII text and a suit that is ASCII text or \<open>None\<close>.
  Whenever the constructor returns a Card, its face is the face argument with the
  first character upper-cased and every later character lower-cased, which is what
  \<open>capitalize()\<close> does to ASCII text: upper-casing turns \<open>a\<close> ... \<open>z\<close> into \<open>A\<close> ... \<open>Z\<close>
  and leaves every other character, lower-casing does the converse.  A truthy suit is
  stored the same way, and a falsy one (\<open>None\<close>, the empty string) is stored as it is.
  The canonical spelling of the same face and suit builds the same Card, so also the
  same value; \<open>('ace', 'spades')\<close> gives the Ace of Spades with value 14, and upper
  case beyond the first letter is lowered, as in \<open>'JOKER'\<close> and \<open>('qUEEN', 'HEARTS')\<close>.
\<close>

theorem Card_init_normalizes:
  assumes "Card_init f s r v = Inr c"
    and "is_ascii f"
    and "case s of None \<Rightarrow> True | Some x \<Rightarrow> is_ascii x"
  shows
  "face c = (case f of [] \<Rightarrow> [] | x # xs \<Rightarrow> upper_char x # map lower_char xs) \<and>
   suit c = (case s of
               None \<Rightarrow> None
             | Some [] \<Rightarrow> Some []
             | Some (x # xs) \<Rightarrow> Some (upper_char x # map lower_char xs)) \<and>
   map upper_char ''abcdefghijklmnopqrstuvwxyz'' = ''ABCDEFGHIJKLMNOPQRSTUVWXYZ'' \<and>
   map lower_char ''ABCDEFGHIJKLMNOPQRSTUVWXYZ'' = ''abcdefghijklmnopqrstuvwxyz'' \<and>
   (\<forall>ch. ch \<notin> set ''abcdefghijklmnopqrstuvwxyz'' \<longrightarrow> upper_char ch = ch) \<and>
   (\<forall>ch. ch \<notin> set ''ABCDEFGHIJKLMNOPQRSTUVWXYZ'' \<longrightarrow> lower_char ch = ch) \<and>
   Card_init (face c) (suit c) r v = Inr c \<and>
   Card_init ''ace'' (Some ''spades'') None None =
     Inr \<lparr>face = ''Ace'', suit = Some ''Spades'', value = 14\<rparr> \<and>
   Card_init ''JOKER'' None None None = Inr \<lparr>face = ''Joker'', suit = None, value = 15\<rparr> \<and>
   Card_init ''qUEEN'' (Some ''HEARTS'') None None =
     Inr \<lparr>face = ''Queen'', suit = Some ''Hearts'', value = 12\<rparr>"
proof -
  have fc: "face c = capitalize f" and sc: "suit c = norm_suit s"
    using assms(1)
    by (auto simp: Card_init_def Let_def split: option.splits sum.splits)
  have f1: "face c = (case f of [] \<Rightarrow> [] | x # xs \<Rightarrow> upper_char x # map lower_char xs)"
    unfolding fc by (cases f) simp_all
  have s1: "suit c = (case s of
               None \<Rightarrow> None
             | Some [] \<Rightarrow> Some []
             | Some (x # xs) \<Rightarrow> Some (upper_char x # map lower_char xs))"
    unfolding sc by (auto simp: norm_suit_def split: option.splits list.splits)
  have again: "Card_init (face c) (suit c) r v = Inr c"
    unfolding fc sc Card_init_canonical by (rule assms(1))
  show ?thesis
    using f1 s1 again letters_mapped upper_char_other lower_char_other
      ace_spades shouted_joker shouted_queen
    by (intro conjI allI impI)
qed

lemma ace_text: "is_ascii ''ace'' \<and> is_ascii ''spades''"
  by code_simp

lemma queen_text: "is_ascii ''qUEEN'' \<and> is_ascii ''HEARTS''"
  by code_simp

theorem Card_init_normalizes_witness:
  "Card_init ''ace'' (Some ''spades'') None None =
     Inr \<lparr>face = ''Ace'', suit = Some ''Spades'', value = 14\<rparr> \<and>
   is_ascii ''ace'' \<and> is_ascii ''spades'' \<and>
   Card_init ''Ace'' (Some ''Spades'') None None =
     Inr \<lparr>face = ''Ace'', suit = Some ''Spades'', value = 14\<rparr> \<and>
   Card_init ''qUEEN'' (Some ''HEARTS'') None None =
     Inr \<lparr>face = ''Queen'', suit = Some ''Hearts'', value = 12\<rparr> \<and>
   is_ascii ''qUEEN'' \<and> is_ascii ''HEARTS'' \<and>
   Card_init ''Queen'' (Some ''Hearts'') None None =
     Inr \<lparr>face = ''Queen'', suit = Some ''Hearts'', value = 12\<rparr>"
proof -
  have t: "case Some ''spades'' of None \<Rightarrow> True | Some x \<Rightarrow> is_ascii x"
    using ace_text by simp
  note w = Card_init_normalizes [OF ace_spades conjunct1 [OF ace_text] t]
  from w have "Card_init (face \<lparr>face = ''Ace'', suit = Some ''Spades'', value = 14\<rparr>)
      (suit \<lparr>face = ''Ace'', suit = Some ''Spades'', value = 14\<rparr>) None None =
     Inr \<lparr>face = ''Ace'', suit = Some ''Spades'', value = 14\<rparr>"
    by (elim conjE)
  then have one: "Card_init ''Ace'' (Some ''Spades'') None None =
     Inr \<lparr>face = ''Ace'', suit = Some ''Spades'', value = 14\<rparr>"
    by (simp only: card.simps)
  have u: "case Some ''HEARTS'' of None \<Rightarrow> True | Some x \<Rightarrow> is_ascii x"
    using queen_text by simp
  note v = Card_init_normalizes [OF shouted_queen conjunct1 [OF queen_text] u]
  from v have "Card_init (face \<lparr>face = ''Queen'', suit = Some ''Hearts'', value = 12\<rparr>)
      (suit \<lparr>face = ''Queen'', suit = Some ''Hearts'', value = 12\<rparr>) None None =
     Inr \<lparr>face = ''Queen'', suit = Some ''Hearts'', value = 12\<rparr>"
    by (elim conjE)
  then have two: "Card_init ''Queen'' (Some ''Hearts'') None None =
     Inr \<lparr>face = ''Queen'', suit = Some ''Hearts'', value = 12\<rparr>"
    by (simp only: card.simps)
  from ace_spades ace_text one shouted_queen queen_text two show ?thesis by blast
qed

section \<open>Rank lookups\<close>

lemma Card_name_not_Joker: "Card_name c \<noteq> ''Joker''"
proof
  assume "Card_name c = ''Joker''"
  then have "set (Card_name c) = set ''Joker''" by simp
  moreover have "CHR '' '' \<in> set (Card_name c)"
    by (simp add: Card_name_def int_eq_str_def)
  ultimately show False by simp
qed

lemma get_card_rank_cases:
  "get_card_rank V r c =
     (if (case suit c of None \<Rightarrow> True | Some s \<Rightarrow> V s = None) then Inr (Rank 0)
      else Inl AttributeError)"
  by (simp add: get_card_rank_def Card_name_not_Joker)

lemma Ranks_init_default:
  "(case Ranks_init Map.empty None True None None of Inl err \<Rightarrow> None | Inr (r, V) \<Rightarrow> Some r) =
     Some Ranks_default"
  by code_simp

lemma default_table_ace:
  "(case Ranks_init Map.empty None True None None of
      Inl e \<Rightarrow> None
    | Inr (r, V) \<Rightarrow> Some (table_entry V ''Spades'' ''Ace'')) = Some (Some 14)"
  by code_simp

text \<open>
  Claim C7 (the code departs from it).  A card's name is never \<open>'Joker'\<close>, so the
  Joker branch of \<open>get_card_rank\<close> is dead, and for every table, instance and card the
  lookup returns 0 when the card's suit is not a key of the table and raises
  \<open>AttributeError\<close> otherwise.  With the default \<open>Ranks()\<close> the Ace of Spades, whose
  table entry is 14, raises.
\<close>

theorem get_card_rank_raises:
  "get_card_rank V r c =
     (if (case suit c of None \<Rightarrow> True | Some s \<Rightarrow> V s = None) then Inr (Rank 0)
      else Inl AttributeError) \<and>
   (case Ranks_init Map.empty None True None None of
      Inl e \<Rightarrow> Inl e
    | Inr (r0, V0) \<Rightarrow>
        get_card_rank V0 r0 \<lparr>face = ''Ace'', suit = Some ''Spades'', value = 14\<rparr>)
     = Inl AttributeError"
  using default_table_ace
  by (auto simp: get_card_rank_cases table_entry_def split: sum.splits option.splits)

text \<open>
  Claim C9 (the code departs from it).  A first \<open>Ranks()\<close> with the default
  specification derives the entry 14 for the Ace of Spades.  Constructing a second
  instance from a specification that weighs the Ace 1 rewrites that entry of the one
  shared table to 1, so the first instance now reads 1 there.
\<close>

theorem Ranks_init_shared_table:
  "(case Ranks_init Map.empty None True None None of
      Inl e \<Rightarrow> (None, None)
    | Inr (r1, V1) \<Rightarrow>
        (case Ranks_init V1
                (Some \<lparr>spec_suits = Some [(''Spades'', 0)], spec_cards = Some [(''Ace'', 1)]\<rparr>)
                True None None of
           Inl e \<Rightarrow> (None, None)
         | Inr (r2, V2) \<Rightarrow>
             (table_entry V1 ''Spades'' ''Ace'', table_entry V2 ''Spades'' ''Ace'')))
     = (Some 14, Some 1)"
  by code_simp

section \<open>Comparing collections\<close>

text \<open>
  Claim C3 (the code departs from it).  \<open>compare\<close>, and with it \<open>==\<close> and \<open>!=\<close>,
  raises \<open>UnboundLocalError\<close> on every pair of collections; it never returns a truth
  value.
\<close>

theorem Stack_compare_always_raises:
  "Stack_compare self other = Inl UnboundLocalError \<and>
   Stack_eq self other = Inl UnboundLocalError \<and>
   Stack_ne self other = Inl UnboundLocalError"
  by (simp add: Stack_compare_def Stack_eq_def Stack_ne_def read_local_def ebind_def)

section \<open>Building a Deck\<close>

lemma Deck_build_decks:
  "Deck_build (self\<lparr>decks := n\<rparr>) fs ss =
     (case Deck_build self fs ss of Inl e \<Rightarrow> Inl e | Inr d \<Rightarrow> Inr (d\<lparr>decks := n\<rparr>))"
  by (simp add: Deck_build_def ebind_def Let_def split: sum.splits)

text \<open>
  Claim C1 (the code departs from it).  \<open>build\<close> never reads \<open>decks\<close>: changing the
  replication count of a Deck changes nothing in what \<open>build\<close> puts into it.  A Deck
  constructed with \<open>decks=2\<close> and the standard faces and suits holds 52 cards, not 104.
\<close>

theorem Deck_build_ignores_decks:
  "(case Deck_build (self\<lparr>decks := n\<rparr>) fs ss of Inl e \<Rightarrow> Inl e | Inr d \<Rightarrow> Inr (cards d)) =
   (case Deck_build self fs ss of Inl e \<Rightarrow> Inl e | Inr d \<Rightarrow> Inr (cards d)) \<and>
   (case Deck_init Map.empty (default_args\<lparr>arg_decks := Some 2\<rparr>) of
      Inl e \<Rightarrow> None
    | Inr (d, V) \<Rightarrow> Some (decks d, length (cards d))) = Some (2, 52)"
proof
  show "(case Deck_build (self\<lparr>decks := n\<rparr>) fs ss of Inl e \<Rightarrow> Inl e | Inr d \<Rightarrow> Inr (cards d)) =
   (case Deck_build self fs ss of Inl e \<Rightarrow> Inl e | Inr d \<Rightarrow> Inr (cards d))"
    by (simp add: Deck_build_decks split: sum.splits)
  show "(case Deck_init Map.empty (default_args\<lparr>arg_decks := Some 2\<rparr>) of
      Inl e \<Rightarrow> None
    | Inr (d, V) \<Rightarrow> Some (decks d, length (cards d))) = Some (2, 52)"
    by code_simp
qed

section \<open>Reading, adding and dealing cards\<close>

lemma getitem_int_nth:
  "i < length (cards self) \<Longrightarrow> getitem_int self (int i) = Inr (cards self ! i)"
  by (simp add: getitem_int_def Let_def)

lemma getitem_int_length:
  "getitem_int self (int (length (cards self))) = Inl IndexError"
  by (simp add: getitem_int_def Let_def)

lemma getitems_upt:
  "hi \<le> length (cards self) \<Longrightarrow>
     getitems self [lo..<hi] = Inr (take (hi - lo) (drop lo (cards self)))"
proof (induction "hi - lo" arbitrary: lo)
  case 0
  then show ?case by simp
next
  case (Suc d)
  then have lt: "lo < hi" and d: "d = hi - Suc lo" by arith+
  have step: "[lo..<hi] = lo # [Suc lo..<hi]" using lt by (simp add: upt_rec)
  have ih: "getitems self [Suc lo..<hi] = Inr (take (hi - Suc lo) (drop (Suc lo) (cards self)))"
    using Suc.hyps(1) [OF d] Suc.prems by simp
  have lo: "lo < length (cards self)" using lt Suc.prems by arith
  have "take (hi - lo) (drop lo (cards self)) =
        cards self ! lo # take (hi - Suc lo) (drop (Suc lo) (cards self))"
    using lo lt by (metis Cons_nth_drop_Suc Suc_diff_Suc take_Suc_Cons)
  then show ?case
    using lo by (simp add: step ih getitem_int_nth ebind_def)
qed

lemma seq_iter_drop:
  "i \<le> length (cards self) \<Longrightarrow> seq_iter self (Suc (length (cards self) - i)) i = drop i (cards self)"
proof (induction "length (cards self) - i" arbitrary: i)
  case 0
  then have "i = length (cards self)" by simp
  then show ?case by (simp add: getitem_int_length)
next
  case (Suc d)
  then have lt: "i < length (cards self)" and d: "d = length (cards self) - Suc i" by arith+
  have "seq_iter self (Suc (length (cards self) - Suc i)) (Suc i) = drop (Suc i) (cards self)"
    using Suc.hyps(1) [OF d] lt by simp
  moreover have "Suc (length (cards self) - i) = Suc (Suc (length (cards self) - Suc i))"
    using lt by arith
  ultimately show ?case
    using lt by (simp add: getitem_int_nth Cons_nth_drop_Suc)
qed

lemma iter_stack_cards: "iter_stack self = cards self"
  using seq_iter_drop [of 0 self] by (simp add: iter_stack_def)

lemma extendleft_rev: "extendleft dq xs = rev xs @ dq"
  unfolding extendleft_def by (induction xs arbitrary: dq) simp_all

lemma pop_Some:
  "dq \<noteq> [] \<Longrightarrow> pop e dq = Some (hd (popped e 1 dq), remaining e 1 dq)"
proof (cases e)
  case TOP
  assume "dq \<noteq> []"
  then show ?thesis using TOP
    by (cases dq rule: rev_cases) (simp_all add: butlast_conv_take)
next
  case BOTTOM
  assume "dq \<noteq> []"
  then show ?thesis using BOTTOM by (cases dq) simp_all
qed

lemma popped_Suc:
  "dq \<noteq> [] \<Longrightarrow> popped e (Suc k) dq = hd (popped e 1 dq) # popped e k (remaining e 1 dq)"
proof (cases e)
  case TOP
  assume "dq \<noteq> []"
  then show ?thesis using TOP
    by (cases dq rule: rev_cases) simp_all
next
  case BOTTOM
  assume "dq \<noteq> []"
  then show ?thesis using BOTTOM by (cases dq) simp_all
qed

lemma remaining_Suc:
  "remaining e k (remaining e 1 dq) = remaining e (Suc k) dq"
proof (cases e)
  case TOP
  have "min (length dq) (length dq - 1) = length dq - 1" by simp
  then show ?thesis using TOP by (simp add: min_def)
next
  case BOTTOM
  then show ?thesis by (simp add: drop_Suc drop_tl)
qed

lemma length_remaining: "length (remaining e k dq) = length dq - k"
  by (cases e) simp_all

lemma length_popped: "length (popped e k dq) = min k (length dq)"
  by (cases e) simp_all

lemma list_set_append:
  "list_set (pre @ None # tl0) (int (length pre)) c = Some (pre @ c # tl0)"
  by (simp add: list_set_def Let_def)

lemma deal_for_step:
  assumes "dq \<noteq> []"
  shows "deal_for e (length pre # ns) dq (pre @ None # tl0) =
         deal_for e ns (remaining e 1 dq) ((pre @ [hd (popped e 1 dq)]) @ tl0)"
  using pop_Some [OF assms, of e] list_set_append [of pre tl0 "hd (popped e 1 dq)"]
  by simp

lemma deal_for_fill:
  "k \<le> length dq \<Longrightarrow>
     deal_for e [length pre..<length pre + k] dq (pre @ replicate (k + m) None) =
       (remaining e k dq, pre @ popped e k dq @ replicate m None)"
proof (induction k arbitrary: dq pre)
  case 0
  then show ?case by (cases e) simp_all
next
  case (Suc k)
  then have ne: "dq \<noteq> []" by auto
  let ?c = "hd (popped e 1 dq)"
  have upt: "[length pre..<length pre + Suc k] =
               length pre # [length (pre @ [?c])..<length (pre @ [?c]) + k]"
    by (simp add: upt_rec)
  have rep: "pre @ replicate (Suc k + m) None = pre @ None # replicate (k + m) None"
    by simp
  have len: "k \<le> length (remaining e 1 dq)"
    using Suc.prems by (simp add: length_remaining)
  have "deal_for e [length pre..<length pre + Suc k] dq (pre @ replicate (Suc k + m) None) =
        deal_for e [length (pre @ [?c])..<length (pre @ [?c]) + k] (remaining e 1 dq)
          ((pre @ [?c]) @ replicate (k + m) None)"
    unfolding upt rep by (rule deal_for_step [OF ne])
  also have "\<dots> = (remaining e k (remaining e 1 dq),
                    (pre @ [?c]) @ popped e k (remaining e 1 dq) @ replicate m None)"
    by (rule Suc.IH [OF len])
  also have "\<dots> = (remaining e (Suc k) dq, pre @ popped e (Suc k) dq @ replicate m None)"
    unfolding remaining_Suc popped_Suc [OF ne] by simp
  finally show ?case .
qed

lemma held_same: "held (d :: deck) = h \<Longrightarrow> d\<lparr>held := h\<rparr> = d"
  by (cases d) simp

lemma Stack_deal_eq:
  assumes h: "held s = Deque"
  shows "Stack_deal s num e =
     Inr (\<lparr>cards = popped e (min (nat num) (length (cards s))) (cards s), held = Deque, ranks = ranks s\<rparr>,
          s\<lparr>cards := remaining e (min (nat num) (length (cards s))) (cards s)\<rparr>)"
proof (cases "cards s = []")
  case True
  then show ?thesis
    using h by (cases e) (simp_all add: Stack_deal_def Stack_init_def ebind_def)
next
  case False
  let ?k = "min (nat num) (length (cards s))"
  have k: "nat (if num \<le> int (length (cards s)) then num else int (length (cards s))) = ?k"
    by (cases "num \<le> int (length (cards s))") (auto simp: min_def)
  have "deal_for e [length ([]::item list)..<length ([]::item list) + ?k] (cards s) ([] @ replicate (?k + 0) None) =
          (remaining e ?k (cards s), [] @ popped e ?k (cards s) @ replicate 0 None)"
    by (rule deal_for_fill) simp
  then have "deal_for e [0..<?k] (cards s) (replicate ?k None) =
          (remaining e ?k (cards s), popped e ?k (cards s))"
    by simp
  then show ?thesis
    using False h unfolding Stack_deal_def Let_def k
    by (simp add: Stack_init_def ebind_def)
qed

text \<open>
  After \<open>empty()\<close> or \<open>reverse()\<close> the cards are in a list, and \<open>deal\<close> raises on
  its first statement; so does \<open>add\<close> at the bottom end.
\<close>

lemma Stack_deal_list: "held s = PyList \<Longrightarrow> Stack_deal s num e = Inl AttributeError"
  by (simp add: Stack_deal_def)

lemma Stack_empty_deal: "Stack_deal (snd (Stack_empty s)) num e = Inl AttributeError"
  by (simp add: Stack_deal_def Stack_empty_def)

lemma Stack_reverse_deal:
  "Stack_reverse s = Inr s' \<Longrightarrow> Stack_deal s' num e = Inl AttributeError"
  by (auto simp: Stack_reverse_def Stack_deal_def ebind_def split: sum.splits)

lemma Stack_empty_add_bottom:
  "Stack_add (snd (Stack_empty s)) a BOTTOM = Inl AttributeError"
  by (simp add: Stack_add_def Stack_empty_def)

lemma Stack_add_cards:
  "held s = Deque \<Longrightarrow>
     Stack_add s (AddStack d) e =
       Inr (s\<lparr>cards := (case e of TOP \<Rightarrow> cards s @ cards d
                           | BOTTOM \<Rightarrow> rev (cards d) @ cards s)\<rparr>)"
  by (cases e) (simp_all add: Stack_add_def add_items_def iter_stack_cards extendleft_rev)

lemma Stack_add_list:
  "Stack_add s (AddList (cards d)) e = Stack_add s (AddStack d) e"
proof -
  have "add_items (AddList (cards d)) = add_items (AddStack d)"
    by (simp add: add_items_def iter_stack_cards)
  then show ?thesis
    unfolding Stack_add_def by (simp only:)
qed

text \<open>
  Claim C5, as amended.  For a plain Stack \<open>s\<close> whose cards are held in a deque,
  \<open>1 \<le> k \<le> size\<close> and either end, \<open>deal(k, end)\<close> returns \<open>k\<close> cards, and adding
  the returned Stack (or its list of cards) back at the same end succeeds, leaves the
  cards that were not dealt in place and puts the dealt ones back in reverse order.
  The original ordering is restored exactly when the dealt block reads the same in
  both directions, as it does for \<open>k = 1\<close>.
\<close>

theorem Stack_deal_add_reverses:
  "held s = Deque \<Longrightarrow> 1 \<le> k \<Longrightarrow> k \<le> int (length (cards s)) \<Longrightarrow>
     (case Stack_deal s k e of
        Inl err \<Rightarrow> False
      | Inr (dealt, s') \<Rightarrow>
          length (cards dealt) = nat k \<and>
          (case Stack_add s' (AddStack dealt) e of
             Inl err \<Rightarrow> False
           | Inr s'' \<Rightarrow>
               cards s'' =
                 (case e of
                    TOP \<Rightarrow> take (length (cards s) - nat k) (cards s) @
                            rev (drop (length (cards s) - nat k) (cards s))
                  | BOTTOM \<Rightarrow> rev (take (nat k) (cards s)) @ drop (nat k) (cards s)) \<and>
               (cards s'' = cards s \<longleftrightarrow> rev (cards dealt) = cards dealt)) \<and>
          Stack_add s' (AddList (cards dealt)) e = Stack_add s' (AddStack dealt) e)"
proof -
  assume h: "held s = Deque" and k1: "1 \<le> k" and k2: "k \<le> int (length (cards s))"
  let ?n = "length (cards s)"
  let ?d = "\<lparr>cards = popped e (nat k) (cards s), held = Deque, ranks = ranks s\<rparr>"
  let ?s' = "s\<lparr>cards := remaining e (nat k) (cards s)\<rparr>"
  let ?readded = "case e of
                 TOP \<Rightarrow> take (?n - nat k) (cards s) @ rev (drop (?n - nat k) (cards s))
               | BOTTOM \<Rightarrow> rev (take (nat k) (cards s)) @ drop (nat k) (cards s)"
  have m: "min (nat k) ?n = nat k" using k2 by simp
  have le: "nat k \<le> ?n" using k2 by simp
  have deal: "Stack_deal s k e = Inr (?d, ?s')"
    by (simp add: Stack_deal_eq [OF h] m)
  have len: "length (cards ?d) = nat k"
    using le by (simp add: length_popped)
  have h': "held ?s' = Deque" using h by simp
  have "Stack_add ?s' (AddStack ?d) e =
          Inr (?s'\<lparr>cards := (case e of TOP \<Rightarrow> cards ?s' @ cards ?d
                                 | BOTTOM \<Rightarrow> rev (cards ?d) @ cards ?s')\<rparr>)"
    by (rule Stack_add_cards [OF h'])
  also have "(case e of TOP \<Rightarrow> cards ?s' @ cards ?d | BOTTOM \<Rightarrow> rev (cards ?d) @ cards ?s')
               = ?readded"
    by (cases e) (simp_all add: take_rev)
  finally have added: "Stack_add ?s' (AddStack ?d) e = Inr (?s'\<lparr>cards := ?readded\<rparr>)" .
  have restored: "?readded = cards s \<longleftrightarrow> rev (cards ?d) = cards ?d"
  proof (cases e)
    case TOP
    have "take (?n - nat k) (cards s) @ rev (drop (?n - nat k) (cards s)) = cards s \<longleftrightarrow>
          rev (drop (?n - nat k) (cards s)) = drop (?n - nat k) (cards s)"
      by (metis append_take_drop_id same_append_eq)
    then show ?thesis
      using TOP by (auto simp: take_rev)
  next
    case BOTTOM
    have "rev (take (nat k) (cards s)) @ drop (nat k) (cards s) = cards s \<longleftrightarrow>
          rev (take (nat k) (cards s)) = take (nat k) (cards s)"
      by (metis append_take_drop_id append_same_eq)
    then show ?thesis
      using BOTTOM by auto
  qed
  show ?thesis
    unfolding deal using len added restored Stack_add_list [of ?s' ?d e]
    by (simp del: popped.simps remaining.simps)
qed

theorem Stack_deal_add_reverses_witness:
  "held \<lparr>cards = [Some \<lparr>face = ''2'', suit = Some ''Clubs'', value = 2\<rparr>,
              Some \<lparr>face = ''3'', suit = Some ''Clubs'', value = 3\<rparr>,
              Some \<lparr>face = ''4'', suit = Some ''Clubs'', value = 4\<rparr>],
      held = Deque, ranks = None\<rparr> = Deque \<and>
   (1::int) \<le> 2 \<and>
   2 \<le> int (length (cards \<lparr>cards = [Some \<lparr>face = ''2'', suit = Some ''Clubs'', value = 2\<rparr>,
              Some \<lparr>face = ''3'', suit = Some ''Clubs'', value = 3\<rparr>,
              Some \<lparr>face = ''4'', suit = Some ''Clubs'', value = 4\<rparr>],
      held = Deque, ranks = None\<rparr>)) \<and>
   (case Stack_deal \<lparr>cards = [Some \<lparr>face = ''2'', suit = Some ''Clubs'', value = 2\<rparr>,
              Some \<lparr>face = ''3'', suit = Some ''Clubs'', value = 3\<rparr>,
              Some \<lparr>face = ''4'', suit = Some ''Clubs'', value = 4\<rparr>],
      held = Deque, ranks = None\<rparr> 2 TOP of
      Inl err \<Rightarrow> False
    | Inr (dealt, s') \<Rightarrow>
        (case Stack_add s' (AddStack dealt) TOP of
           Inl err \<Rightarrow> False
         | Inr s'' \<Rightarrow>
             cards s'' =
               [Some \<lparr>face = ''2'', suit = Some ''Clubs'', value = 2\<rparr>,
                Some \<lparr>face = ''4'', suit = Some ''Clubs'', value = 4\<rparr>,
                Some \<lparr>face = ''3'', suit = Some ''Clubs'', value = 3\<rparr>]))"
  using Stack_deal_add_reverses [of
      "\<lparr>cards = [Some \<lparr>face = ''2'', suit = Some ''Clubs'', value = 2\<rparr>,
              Some \<lparr>face = ''3'', suit = Some ''Clubs'', value = 3\<rparr>,
              Some \<lparr>face = ''4'', suit = Some ''Clubs'', value = 4\<rparr>],
      held = Deque, ranks = None\<rparr>" 2 TOP]
  by (auto split: sum.splits)

text \<open>
  The claim as written fails for a Stack of two different cards and \<open>k = 2\<close>: from
  either end, the two cards come back swapped.
\<close>

theorem Stack_deal_add_counterexample:
  "(1::int) \<le> 2 \<and>
   2 \<le> int (length (cards \<lparr>cards = [Some \<lparr>face = ''2'', suit = Some ''Clubs'', value = 2\<rparr>,
              Some \<lparr>face = ''3'', suit = Some ''Clubs'', value = 3\<rparr>],
      held = Deque, ranks = None\<rparr>)) \<and>
   (case Stack_deal \<lparr>cards = [Some \<lparr>face = ''2'', suit = Some ''Clubs'', value = 2\<rparr>,
              Some \<lparr>face = ''3'', suit = Some ''Clubs'', value = 3\<rparr>],
      held = Deque, ranks = None\<rparr> 2 TOP of
      Inl err \<Rightarrow> None
    | Inr (dealt, s') \<Rightarrow>
        (case Stack_add s' (AddStack dealt) TOP of
           Inl err \<Rightarrow> None
         | Inr s'' \<Rightarrow> Some (cards s''))) =
     Some [Some \<lparr>face = ''3'', suit = Some ''Clubs'', value = 3\<rparr>,
           Some \<lparr>face = ''2'', suit = Some ''Clubs'', value = 2\<rparr>] \<and>
   (case Stack_deal \<lparr>cards = [Some \<lparr>face = ''2'', suit = Some ''Clubs'', value = 2\<rparr>,
              Some \<lparr>face = ''3'', suit = Some ''Clubs'', value = 3\<rparr>],
      held = Deque, ranks = None\<rparr> 2 BOTTOM of
      Inl err \<Rightarrow> None
    | Inr (dealt, s') \<Rightarrow>
        (case Stack_add s' (AddStack dealt) BOTTOM of
           Inl err \<Rightarrow> None
         | Inr s'' \<Rightarrow> Some (cards s''))) =
     Some [Some \<lparr>face = ''3'', suit = Some ''Clubs'', value = 3\<rparr>,
           Some \<lparr>face = ''2'', suit = Some ''Clubs'', value = 2\<rparr>]"
  by code_simp

section \<open>Splitting a Stack\<close>

lemma slice_bound_le: "slice_bound n i \<le> n"
  unfolding slice_bound_def by (cases "i < 0") (auto simp: max_def)

lemma getitem_slice_eq:
  "getitem_slice self start stop =
     Inr (take ((case stop of None \<Rightarrow> length (cards self)
                 | Some j \<Rightarrow> slice_bound (length (cards self)) j) -
                (case start of None \<Rightarrow> 0 | Some i \<Rightarrow> slice_bound (length (cards self)) i))
            (drop (case start of None \<Rightarrow> 0 | Some i \<Rightarrow> slice_bound (length (cards self)) i)
               (cards self)))"
  unfolding getitem_slice_def slice_indices_def
  by (rule getitems_upt) (simp add: slice_bound_le split: option.splits)

lemma slice_prefix:
  "0 \<le> j \<Longrightarrow> getitem_slice self (Some 0) (Some j) = Inr (take (nat j) (cards self))"
  by (simp add: getitem_slice_eq slice_bound_def min_def)

lemma slice_suffix:
  "0 \<le> i \<Longrightarrow> getitem_slice self (Some i) None = Inr (drop (nat i) (cards self))"
  by (simp add: getitem_slice_eq slice_bound_def min_def)

lemma slice_suffix_neg:
  "i < 0 \<Longrightarrow> - i \<le> int (length (cards self)) \<Longrightarrow>
     getitem_slice self (Some i) None = Inr (drop (length (cards self) - nat (- i)) (cards self))"
proof -
  assume a: "i < 0" "- i \<le> int (length (cards self))"
  then have "nat (max (i + int (length (cards self))) 0) = length (cards self) - nat (- i)"
    by (simp add: max_def) arith
  then show ?thesis using a by (simp add: getitem_slice_eq slice_bound_def)
qed

lemma Stack_init_list: "Stack_init (ListArg xs) r = Inr \<lparr>cards = xs, held = Deque, ranks = r\<rparr>"
  by (simp add: Stack_init_def)

lemma split_pair_Stack:
  "pile_slice (StackObj s) a b = Inr xs \<Longrightarrow> pile_slice (StackObj s) c d = Inr ys \<Longrightarrow>
     split_pair V (StackObj s) (slice_arg (StackObj s) a b) (slice_arg (StackObj s) c d) =
       Inr (StackObj \<lparr>cards = xs, held = Deque, ranks = None\<rparr>,
            StackObj \<lparr>cards = ys, held = Deque, ranks = None\<rparr>, V)"
  by (simp add: split_pair_def slice_arg_def new_like_def ebind_def Stack_init_list)

text \<open>
  Claim C4, as amended.  For a plain Stack \<open>s\<close> (an instance of \<open>Stack\<close> itself, not of
  \<open>Deck\<close>) of size \<open>n\<close>: \<open>split()\<close> with no indice returns two plain Stacks, the first
  \<open>n // 2\<close> cards and the rest, and \<open>split(indice)\<close> with \<open>0 \<le> indice < n\<close> returns
  the first \<open>indice\<close> cards and the rest; in both cases the two Stacks concatenated in
  order are the original sequence.  For a negative indice with \<open>|indice| < n\<close> the
  first Stack is the last \<open>|indice|\<close> cards and the second the first \<open>|indice|\<close> cards.
\<close>

theorem Stack_split_parts:
  "(case Stack_split V (StackObj s) None of
      Inl err \<Rightarrow> False
    | Inr (x, y, V') \<Rightarrow>
        class_of x = Stack_cls \<and> class_of y = Stack_cls \<and>
        pile_cards x = take (length (cards s) div 2) (cards s) \<and>
        pile_cards y = drop (length (cards s) div 2) (cards s) \<and>
        pile_cards x @ pile_cards y = cards s) \<and>
   (0 \<le> i \<and> i < int (length (cards s)) \<longrightarrow>
      (case Stack_split V (StackObj s) (Some i) of
         Inl err \<Rightarrow> False
       | Inr (x, y, V') \<Rightarrow>
           class_of x = Stack_cls \<and> class_of y = Stack_cls \<and>
           pile_cards x = take (nat i) (cards s) \<and> pile_cards y = drop (nat i) (cards s) \<and>
           pile_cards x @ pile_cards y = cards s)) \<and>
   (i < 0 \<and> - i < int (length (cards s)) \<longrightarrow>
      (case Stack_split V (StackObj s) (Some i) of
         Inl err \<Rightarrow> False
       | Inr (x, y, V') \<Rightarrow>
           class_of x = Stack_cls \<and> class_of y = Stack_cls \<and>
           pile_cards x = drop (length (cards s) - nat (- i)) (cards s) \<and>
           pile_cards y = take (nat (- i)) (cards s)))"
proof (intro conjI impI)
  have half: "nat (int (length (cards s)) div 2) = length (cards s) div 2"
    by simp
  have nn: "0 \<le> int (length (cards s)) div 2" by simp
  have "Stack_split V (StackObj s) None =
          Inr (StackObj \<lparr>cards = take (length (cards s) div 2) (cards s), held = Deque, ranks = None\<rparr>,
               StackObj \<lparr>cards = drop (length (cards s) div 2) (cards s), held = Deque, ranks = None\<rparr>, V)"
    unfolding Stack_split_def Let_def option.case pile_cards.simps
    by (rule split_pair_Stack) (simp_all only: pile_slice.simps slice_prefix [OF nn] slice_suffix [OF nn] half)
  then show "case Stack_split V (StackObj s) None of
      Inl err \<Rightarrow> False
    | Inr (x, y, V') \<Rightarrow>
        class_of x = Stack_cls \<and> class_of y = Stack_cls \<and>
        pile_cards x = take (length (cards s) div 2) (cards s) \<and>
        pile_cards y = drop (length (cards s) div 2) (cards s) \<and>
        pile_cards x @ pile_cards y = cards s"
    by simp
next
  assume a: "0 \<le> i \<and> i < int (length (cards s))"
  then have i0: "0 \<le> i" by simp
  have "split_pair V (StackObj s) (slice_arg (StackObj s) (Some 0) (Some i))
              (slice_arg (StackObj s) (Some i) None) =
          Inr (StackObj \<lparr>cards = take (nat i) (cards s), held = Deque, ranks = None\<rparr>,
               StackObj \<lparr>cards = drop (nat i) (cards s), held = Deque, ranks = None\<rparr>, V)"
    by (rule split_pair_Stack) (simp_all only: pile_slice.simps slice_prefix [OF i0] slice_suffix [OF i0])
  then have "Stack_split V (StackObj s) (Some i) =
          Inr (StackObj \<lparr>cards = take (nat i) (cards s), held = Deque, ranks = None\<rparr>,
               StackObj \<lparr>cards = drop (nat i) (cards s), held = Deque, ranks = None\<rparr>, V)"
    using a by (simp add: Stack_split_def Let_def)
  then show "case Stack_split V (StackObj s) (Some i) of
         Inl err \<Rightarrow> False
       | Inr (x, y, V') \<Rightarrow>
           class_of x = Stack_cls \<and> class_of y = Stack_cls \<and>
           pile_cards x = take (nat i) (cards s) \<and> pile_cards y = drop (nat i) (cards s) \<and>
           pile_cards x @ pile_cards y = cards s"
    by simp
next
  assume a: "i < 0 \<and> - i < int (length (cards s))"
  then have abs: "\<bar>i\<bar> = - i" and n0: "0 \<le> - i" and neg: "i < 0"
    and le: "- i \<le> int (length (cards s))" by simp_all
  have "split_pair V (StackObj s) (slice_arg (StackObj s) (Some i) None)
              (slice_arg (StackObj s) (Some 0) (Some (- i))) =
          Inr (StackObj \<lparr>cards = drop (length (cards s) - nat (- i)) (cards s), held = Deque, ranks = None\<rparr>,
               StackObj \<lparr>cards = take (nat (- i)) (cards s), held = Deque, ranks = None\<rparr>, V)"
    by (rule split_pair_Stack)
       (simp_all only: pile_slice.simps slice_prefix [OF n0] slice_suffix_neg [OF neg le])
  then have "Stack_split V (StackObj s) (Some i) =
          Inr (StackObj \<lparr>cards = drop (length (cards s) - nat (- i)) (cards s), held = Deque, ranks = None\<rparr>,
               StackObj \<lparr>cards = take (nat (- i)) (cards s), held = Deque, ranks = None\<rparr>, V)"
    using a by (simp add: Stack_split_def Let_def abs)
  then show "case Stack_split V (StackObj s) (Some i) of
         Inl err \<Rightarrow> False
       | Inr (x, y, V') \<Rightarrow>
           class_of x = Stack_cls \<and> class_of y = Stack_cls \<and>
           pile_cards x = drop (length (cards s) - nat (- i)) (cards s) \<and>
           pile_cards y = take (nat (- i)) (cards s)"
    by simp
qed

theorem Stack_split_parts_witness:
  "(0 \<le> (1::int) \<and> 1 < int (length (cards
     \<lparr>cards = [Some \<lparr>face = ''2'', suit = Some ''Clubs'', value = 2\<rparr>,
              Some \<lparr>face = ''3'', suit = Some ''Clubs'', value = 3\<rparr>,
              Some \<lparr>face = ''4'', suit = Some ''Clubs'', value = 4\<rparr>],
      held = Deque, ranks = None\<rparr>))) \<and>
   (case Stack_split Map.empty (StackObj
     \<lparr>cards = [Some \<lparr>face = ''2'', suit = Some ''Clubs'', value = 2\<rparr>,
              Some \<lparr>face = ''3'', suit = Some ''Clubs'', value = 3\<rparr>,
              Some \<lparr>face = ''4'', suit = Some ''Clubs'', value = 4\<rparr>],
      held = Deque, ranks = None\<rparr>) (Some 1) of
      Inl err \<Rightarrow> False
    | Inr (x, y, V') \<Rightarrow>
        pile_cards x = [Some \<lparr>face = ''2'', suit = Some ''Clubs'', value = 2\<rparr>] \<and>
        pile_cards y = [Some \<lparr>face = ''3'', suit = Some ''Clubs'', value = 3\<rparr>,
                        Some \<lparr>face = ''4'', suit = Some ''Clubs'', value = 4\<rparr>]) \<and>
   ((- 1 :: int) < 0 \<and> - (- 1) < int (length (cards
     \<lparr>cards = [Some \<lparr>face = ''2'', suit = Some ''Clubs'', value = 2\<rparr>,
              Some \<lparr>face = ''3'', suit = Some ''Clubs'', value = 3\<rparr>,
              Some \<lparr>face = ''4'', suit = Some ''Clubs'', value = 4\<rparr>],
      held = Deque, ranks = None\<rparr>))) \<and>
   (case Stack_split Map.empty (StackObj
     \<lparr>cards = [Some \<lparr>face = ''2'', suit = Some ''Clubs'', value = 2\<rparr>,
              Some \<lparr>face = ''3'', suit = Some ''Clubs'', value = 3\<rparr>,
              Some \<lparr>face = ''4'', suit = Some ''Clubs'', value = 4\<rparr>],
      held = Deque, ranks = None\<rparr>) (Some (- 1)) of
      Inl err \<Rightarrow> False
    | Inr (x, y, V') \<Rightarrow>
        pile_cards x = [Some \<lparr>face = ''4'', suit = Some ''Clubs'', value = 4\<rparr>] \<and>
        pile_cards y = [Some \<lparr>face = ''2'', suit = Some ''Clubs'', value = 2\<rparr>])"
  using Stack_split_parts [where V = Map.empty and s =
      "\<lparr>cards = [Some \<lparr>face = ''2'', suit = Some ''Clubs'', value = 2\<rparr>,
              Some \<lparr>face = ''3'', suit = Some ''Clubs'', value = 3\<rparr>,
              Some \<lparr>face = ''4'', suit = Some ''Clubs'', value = 4\<rparr>],
      held = Deque, ranks = None\<rparr>" and i = 1]
    Stack_split_parts [where V = Map.empty and s =
      "\<lparr>cards = [Some \<lparr>face = ''2'', suit = Some ''Clubs'', value = 2\<rparr>,
              Some \<lparr>face = ''3'', suit = Some ''Clubs'', value = 3\<rparr>,
              Some \<lparr>face = ''4'', suit = Some ''Clubs'', value = 4\<rparr>],
      held = Deque, ranks = None\<rparr>" and i = "- 1"]
  by (auto split: sum.splits)

text \<open>
  The claim as written fails at indice \<open>-1\<close> on a Stack of three cards: the two parts
  are the last card and the first card, and the middle card is in neither.
\<close>

theorem Stack_split_negative_counterexample:
  "(case Stack_split Map.empty (StackObj
     \<lparr>cards = [Some \<lparr>face = ''2'', suit = Some ''Clubs'', value = 2\<rparr>,
              Some \<lparr>face = ''3'', suit = Some ''Clubs'', value = 3\<rparr>,
              Some \<lparr>face = ''4'', suit = Some ''Clubs'', value = 4\<rparr>],
      held = Deque, ranks = None\<rparr>) (Some (- 1)) of
      Inl err \<Rightarrow> None
    | Inr (x, y, V') \<Rightarrow> Some (pile_cards x @ pile_cards y)) =
     Some [Some \<lparr>face = ''4'', suit = Some ''Clubs'', value = 4\<rparr>,
           Some \<lparr>face = ''2'', suit = Some ''Clubs'', value = 2\<rparr>]"
  by code_simp

text \<open>
  An indice at or beyond the size, in either direction, reaches one of the two
  branches that hand \<open>self.cards\<close> itself to the constructor, which refuses a deque.
\<close>

lemma Stack_split_out_of_range:
  "held s = Deque \<Longrightarrow>
   int (length (cards s)) \<le> i \<or> (i < 0 \<and> int (length (cards s)) \<le> - i) \<Longrightarrow>
     Stack_split V (StackObj s) (Some i) = Inl AttributeError"
  by (auto simp: Stack_split_def Let_def split_pair_def self_cards_def new_like_def
        Stack_init_def ebind_def)

text \<open>
  A Deck inherits \<open>split\<close>, and its constructor builds a full deck over the cards it
  is given: both halves of a fresh \<open>Deck()\<close> are Decks of 52 cards.
\<close>

lemma Deck_split_rebuilds:
  "(case Deck_init Map.empty default_args of
      Inl err \<Rightarrow> None
    | Inr (d, V) \<Rightarrow>
        (case Stack_split V (DeckObj d) None of
           Inl err \<Rightarrow> None
         | Inr (x, y, V') \<Rightarrow>
             Some (class_of x, length (pile_cards x), class_of y, length (pile_cards y),
                   pile_cards x = cards d \<and> pile_cards y = cards d))) =
     Some (Deck_cls, 52, Deck_cls, 52, True)"
  by code_simp

section \<open>Dealing more cards than there are\<close>

lemma deal_while_done:
  "num \<le> 0 \<Longrightarrow> deal_while shuf rb rs e num0 self g num dealt = Some (Inr (dealt, self, g))"
  by (subst deal_while.simps) simp

lemma deal_while_list:
  "held self = PyList \<Longrightarrow> 0 < num \<Longrightarrow>
     deal_while shuf rb rs e num0 self g num dealt = Some (Inl AttributeError)"
  by (subst deal_while.simps) simp

lemma deal_while_step:
  assumes "cards self \<noteq> []" "0 < num" "num0 - num = int (length pre)"
    and h: "held self = Deque"
  shows "deal_while shuf rb rs e num0 self g num (pre @ None # tl0) =
         deal_while shuf rb rs e num0 (self\<lparr>cards := remaining e 1 (cards self)\<rparr>) g (num - 1)
           ((pre @ [hd (popped e 1 (cards self))]) @ tl0)"
  using assms(2,3) h pop_Some [OF assms(1), of e]
    list_set_append [of pre tl0 "hd (popped e 1 (cards self))"]
  by (subst deal_while.simps) (simp add: Let_def)

lemma deal_while_pops:
  "k \<le> length (cards self) \<Longrightarrow> int k \<le> num \<Longrightarrow> num0 - num = int (length pre) \<Longrightarrow>
   held self = Deque \<Longrightarrow>
     deal_while shuf rb rs e num0 self g num (pre @ replicate (k + m) None) =
     deal_while shuf rb rs e num0 (self\<lparr>cards := remaining e k (cards self)\<rparr>) g (num - int k)
       (pre @ popped e k (cards self) @ replicate m None)"
proof (induction k arbitrary: self num pre)
  case 0
  then show ?case by (cases e) simp_all
next
  case (Suc k)
  then have ne: "cards self \<noteq> []" by auto
  let ?c = "hd (popped e 1 (cards self))"
  let ?self1 = "self\<lparr>cards := remaining e 1 (cards self)\<rparr>"
  have pos: "0 < num" using Suc.prems(2) by simp
  have rep: "pre @ replicate (Suc k + m) None = pre @ None # replicate (k + m) None"
    by simp
  have l1: "k \<le> length (cards ?self1)"
    using Suc.prems(1) by (simp add: length_remaining)
  have l2: "int k \<le> num - 1" using Suc.prems(2) by simp
  have l3: "num0 - (num - 1) = int (length (pre @ [?c]))" using Suc.prems(3) by simp
  have l4: "held ?self1 = Deque" using Suc.prems(4) by simp
  have "deal_while shuf rb rs e num0 self g num (pre @ replicate (Suc k + m) None) =
        deal_while shuf rb rs e num0 ?self1 g (num - 1) ((pre @ [?c]) @ replicate (k + m) None)"
    unfolding rep by (rule deal_while_step [OF ne pos Suc.prems(3,4)])
  also have "\<dots> = deal_while shuf rb rs e num0 (?self1\<lparr>cards := remaining e k (cards ?self1)\<rparr>) g
                     (num - 1 - int k) ((pre @ [?c]) @ popped e k (cards ?self1) @ replicate m None)"
    by (rule Suc.IH [OF l1 l2 l3 l4])
  also have "\<dots> = deal_while shuf rb rs e num0 (self\<lparr>cards := remaining e (Suc k) (cards self)\<rparr>) g
                     (num - int (Suc k)) (pre @ popped e (Suc k) (cards self) @ replicate m None)"
    unfolding popped_Suc [OF ne]
    by (simp add: remaining_Suc [unfolded One_nat_def] algebra_simps
        del: remaining.simps popped.simps)
  finally show ?case .
qed

lemma deal_while_empty_stop:
  "cards self = [] \<Longrightarrow> 0 < num \<Longrightarrow> held self = Deque \<Longrightarrow>
     deal_while shuf False rs e num0 self g num dealt = Some (Inr (dealt, self, g))"
  by (subst deal_while.simps) (cases e; simp add: Let_def)

lemma deal_while_empty_rebuild:
  "cards self = [] \<Longrightarrow> 0 < num \<Longrightarrow> held self = Deque \<Longrightarrow>
   Deck_build self None None = Inr self2 \<Longrightarrow>
     deal_while shuf True (Some True) e num0 self g num dealt =
     deal_while shuf True (Some True) e num0 (self2\<lparr>cards := shuf g (cards self2)\<rparr>) (Suc g) num dealt"
  by (subst deal_while.simps) (cases e; simp add: Let_def)

lemma remaining_all: "remaining e (length xs) xs = []"
  by (cases e) simp_all

lemma popped_all: "popped e (length xs) xs = (case e of TOP \<Rightarrow> rev xs | BOTTOM \<Rightarrow> xs)"
  by (cases e) simp_all

lemma Deck_deal_list:
  "held d = PyList \<Longrightarrow> 0 < num \<Longrightarrow>
     Deck_deal shuf g d num rb sh e = Some (Inl AttributeError)"
  by (simp add: Deck_deal_def Let_def deal_while_list)

lemma Deck_deal_no_rebuild:
  assumes short: "int (length (cards d)) < num"
    and h: "held d = Deque"
    and off: "case rb of None \<Rightarrow> \<not> rebuild d | Some b \<Rightarrow> \<not> b"
  shows "Deck_deal shuf g d num rb sh e =
     Some (Inr (\<lparr>cards = (case e of TOP \<Rightarrow> rev (cards d) | BOTTOM \<Rightarrow> cards d), held = Deque, ranks = ranks d\<rparr>,
                d\<lparr>cards := []\<rparr>, g))"
proof -
  let ?n = "length (cards d)"
  let ?rs = "case sh of None \<Rightarrow> Some (reshuffle d) | Some b \<Rightarrow> None"
  have rb: "(case rb of None \<Rightarrow> rebuild d | Some b \<Rightarrow> b) = False"
    using off by (cases rb) simp_all
  have "deal_while shuf False ?rs e num d g num ([] @ replicate (?n + 0) None) =
        deal_while shuf False ?rs e num (d\<lparr>cards := remaining e ?n (cards d)\<rparr>) g (num - int ?n)
          ([] @ popped e ?n (cards d) @ replicate 0 None)"
    by (rule deal_while_pops) (use short h in simp_all)
  also have "\<dots> = Some (Inr ([] @ popped e ?n (cards d) @ replicate 0 None,
                      d\<lparr>cards := remaining e ?n (cards d)\<rparr>, g))"
    by (rule deal_while_empty_stop) (use short h in \<open>simp_all add: remaining_all\<close>)
  finally have loop: "deal_while shuf False ?rs e num d g num (replicate ?n None) =
      Some (Inr (case e of TOP \<Rightarrow> rev (cards d) | BOTTOM \<Rightarrow> cards d, d\<lparr>cards := []\<rparr>, g))"
    by (simp add: remaining_all popped_all del: remaining.simps popped.simps)
  show ?thesis
    unfolding Deck_deal_def Let_def rb
    using short loop by (simp add: Stack_init_def ebind_def)
qed

text \<open>
  Claim C6, as amended.  For a plain Stack, and for a Deck whose rebuild flag is off,
  with the cards held in a deque, \<open>deal(num, end)\<close> with \<open>num\<close> above the size returns
  without an exception.  The result is a plain Stack (also when the collection is a
  Deck) holding all the cards in the order they were popped, which is fewer than
  \<open>num\<close>, and the collection is left empty and of the class it had.
\<close>

theorem deal_shortfall:
  assumes "int (length (pile_cards p)) < num"
    and "pile_held p = Deque"
    and "case p of StackObj s \<Rightarrow> True | DeckObj d \<Rightarrow> \<not> rebuild d"
  shows "case deal shuf g p num e of
           Some (Inr (r, p')) \<Rightarrow>
             class_of r = Stack_cls \<and>
             pile_cards r = (case e of TOP \<Rightarrow> rev (pile_cards p) | BOTTOM \<Rightarrow> pile_cards p) \<and>
             int (length (pile_cards r)) < num \<and>
             pile_cards p' = [] \<and> class_of p' = class_of p
         | _ \<Rightarrow> False"
proof (cases p)
  case (StackObj s)
  have m: "min (nat num) (length (cards s)) = length (cards s)"
    using assms(1) StackObj by simp
  have h: "held s = Deque" using assms(2) StackObj by simp
  show ?thesis
    using assms(1) StackObj
    by (simp add: deal_def Stack_deal_eq [OF h] m ebind_def remaining_all popped_all
        del: remaining.simps popped.simps split: pile_end.splits)
next
  case (DeckObj d)
  have "Deck_deal shuf g d num None None e =
     Some (Inr (\<lparr>cards = (case e of TOP \<Rightarrow> rev (cards d) | BOTTOM \<Rightarrow> cards d), held = Deque, ranks = ranks d\<rparr>,
                d\<lparr>cards := []\<rparr>, g))"
    by (rule Deck_deal_no_rebuild) (use assms DeckObj in simp_all)
  then show ?thesis
    using assms(1) DeckObj
    by (simp add: deal_def ebind_def split: pile_end.splits)
qed

theorem deal_shortfall_witness:
  "int (length (pile_cards (DeckObj
      \<lparr>cards = [Some \<lparr>face = ''2'', suit = Some ''Clubs'', value = 2\<rparr>,
                Some \<lparr>face = ''3'', suit = Some ''Clubs'', value = 3\<rparr>],
       held = Deque, ranks = Some Ranks_default, decks = 1, jokers = 0, rebuild = False,
       reshuffle = True, faces = Faces, suits = Suits\<rparr>))) < 3 \<and>
   pile_held (DeckObj
      \<lparr>cards = [Some \<lparr>face = ''2'', suit = Some ''Clubs'', value = 2\<rparr>,
                Some \<lparr>face = ''3'', suit = Some ''Clubs'', value = 3\<rparr>],
       held = Deque, ranks = Some Ranks_default, decks = 1, jokers = 0, rebuild = False,
       reshuffle = True, faces = Faces, suits = Suits\<rparr>) = Deque \<and>
   \<not> rebuild
      \<lparr>cards = [Some \<lparr>face = ''2'', suit = Some ''Clubs'', value = 2\<rparr>,
                Some \<lparr>face = ''3'', suit = Some ''Clubs'', value = 3\<rparr>],
       held = Deque, ranks = Some Ranks_default, decks = 1, jokers = 0, rebuild = False,
       reshuffle = True, faces = Faces, suits = Suits\<rparr> \<and>
   (case deal (\<lambda>g. rev) 0 (DeckObj
      \<lparr>cards = [Some \<lparr>face = ''2'', suit = Some ''Clubs'', value = 2\<rparr>,
                Some \<lparr>face = ''3'', suit = Some ''Clubs'', value = 3\<rparr>],
       held = Deque, ranks = Some Ranks_default, decks = 1, jokers = 0, rebuild = False,
       reshuffle = True, faces = Faces, suits = Suits\<rparr>) 3 TOP of
      Some (Inr (r, p')) \<Rightarrow>
        pile_cards r = [Some \<lparr>face = ''3'', suit = Some ''Clubs'', value = 3\<rparr>,
                        Some \<lparr>face = ''2'', suit = Some ''Clubs'', value = 2\<rparr>] \<and>
        pile_cards p' = []
    | _ \<Rightarrow> False)"
  using deal_shortfall [where p = "DeckObj
      \<lparr>cards = [Some \<lparr>face = ''2'', suit = Some ''Clubs'', value = 2\<rparr>,
                Some \<lparr>face = ''3'', suit = Some ''Clubs'', value = 3\<rparr>],
       held = Deque, ranks = Some Ranks_default, decks = 1, jokers = 0, rebuild = False,
       reshuffle = True, faces = Faces, suits = Suits\<rparr>" and num = 3 and shuf = "\<lambda>g. rev" and g = 0 and e = TOP]
  by (auto split: option.splits sum.splits)

text \<open>
  When the cards are in a list, as \<open>empty()\<close> leaves them, \<open>deal\<close> raises instead.
\<close>

lemma deal_list_backed:
  "pile_held p = PyList \<Longrightarrow> 0 < num \<Longrightarrow> deal shuf g p num e = Some (Inl AttributeError)"
  by (cases p) (simp_all add: deal_def Stack_deal_list Deck_deal_list ebind_def)

text \<open>
  The claim as written fails on the class of the result.  The Deck made by
  \<open>Deck(cards=[2 of Clubs, 3 of Clubs], build=False)\<close> has rebuild off and two cards;
  asked for three, it returns its two cards in a Stack, not in a Deck.
\<close>

theorem deal_class_counterexample:
  "(case Deck_init Map.empty
           (default_args\<lparr>arg_cards :=
                ListArg [Some \<lparr>face = ''2'', suit = Some ''Clubs'', value = 2\<rparr>,
                         Some \<lparr>face = ''3'', suit = Some ''Clubs'', value = 3\<rparr>],
              arg_build := False\<rparr>) of
      Inl err \<Rightarrow> None
    | Inr (d, V) \<Rightarrow>
        (case deal (\<lambda>g. rev) 0 (DeckObj d) 3 TOP of
           Some (Inr (r, p')) \<Rightarrow>
             Some (rebuild d, length (cards d), class_of (DeckObj d), class_of r,
                   length (pile_cards r), length (pile_cards p'))
         | _ \<Rightarrow> None)) =
     Some (False, 2, Deck_cls, Stack_cls, 2, 0)"
  by code_simp

section \<open>Dealing with rebuild\<close>

lemma new_cards_length: "new_cards ps = Inr cs \<Longrightarrow> length cs = length ps"
proof (induction ps arbitrary: cs)
  case Nil
  then show ?case by simp
next
  case (Cons p ps)
  obtain f s where p: "p = (f, s)" by (cases p)
  from Cons.prems obtain c cs' where "new_cards ps = Inr cs'" "cs = c # cs'"
    by (auto simp: p ebind_def split: sum.splits)
  then show ?case using Cons.IH by simp
qed

lemma joker_card:
  "Card_init JOKER None None None = Inr \<lparr>face = ''Joker'', suit = None, value = 15\<rparr>"
  by code_simp

lemma new_cards_jokers:
  "new_cards (replicate n (JOKER, None)) =
     Inr (replicate n \<lparr>face = ''Joker'', suit = None, value = 15\<rparr>)"
  by (induction n) (simp_all add: joker_card ebind_def)

lemma standard_cards_ok:
  "\<not> isl (new_cards (concat (map (\<lambda>f. map (\<lambda>s. (f, Some s)) Suits) Faces)))"
  by code_simp

lemma standard_pairs_length:
  "length (concat (map (\<lambda>f. map (\<lambda>s. (f, Some s)) Suits) Faces)) = 52"
  by code_simp

lemma Deck_build_standard:
  assumes "faces d = Faces" "suits d = Suits" "0 \<le> jokers d" and h: "held d = Deque"
  shows "\<exists>F. length F = 52 + nat (jokers d) \<and>
             (\<forall>xs. Deck_build (d\<lparr>cards := xs\<rparr>) None None = Inr (d\<lparr>cards := F\<rparr>))"
proof -
  obtain cs where cs: "new_cards (concat (map (\<lambda>f. map (\<lambda>s. (f, Some s)) Suits) Faces)) = Inr cs"
    using standard_cards_ok by (cases "new_cards (concat (map (\<lambda>f. map (\<lambda>s. (f, Some s)) Suits) Faces))") auto
  have len: "length cs = 52"
    using new_cards_length [OF cs] standard_pairs_length by simp
  let ?js = "replicate (nat (jokers d)) \<lparr>face = ''Joker'', suit = None, value = 15\<rparr>"
  let ?F = "map Some (cs @ ?js)"
  have same: "d\<lparr>cards := ?F, held := Deque\<rparr> = d\<lparr>cards := ?F\<rparr>"
    using held_same [of "d\<lparr>cards := ?F\<rparr>" Deque] h by simp
  have "Deck_build (d\<lparr>cards := xs\<rparr>) None None = Inr (d\<lparr>cards := ?F, held := Deque\<rparr>)" for xs
    using assms(1-3) cs
    by (simp add: Deck_build_def or_list_def Let_def ebind_def new_cards_jokers)
  then have "Deck_build (d\<lparr>cards := xs\<rparr>) None None = Inr (d\<lparr>cards := ?F\<rparr>)" for xs
    unfolding same .
  moreover have "length ?F = 52 + nat (jokers d)" using len by simp
  ultimately show ?thesis by blast
qed

text \<open>
  The rounds of the loop after the Deck has run dry: each round rebuilds, shuffles
  and deals a whole deck, except the last, which deals what is still owed.
\<close>

lemma deal_while_rounds:
  assumes build: "\<And>xs. Deck_build (d\<lparr>cards := xs\<rparr>) None None = Inr (d\<lparr>cards := F\<rparr>)"
    and deque: "held d = Deque"
    and len: "\<And>g. length (shuf g F) = length F"
    and m: "1 \<le> m" "m \<le> length F"
  shows "num0 - int (q * length F + m) = int (length pre) \<Longrightarrow>
     \<exists>X R. deal_while shuf True (Some True) e num0 (d\<lparr>cards := []\<rparr>) g
              (int (q * length F + m)) (pre @ replicate (q * length F + m) None) =
            Some (Inr (pre @ X, d\<lparr>cards := R\<rparr>, g + q + 1)) \<and>
           length X = q * length F + m \<and> length R = length F - m \<and>
           (q = 0 \<longrightarrow> X = popped e m (shuf g F) \<and> R = remaining e m (shuf g F))"
proof (induction q arbitrary: g pre)
  case 0
  let ?S = "shuf g F"
  have pre: "num0 - int m = int (length pre)" using 0 by simp
  have "deal_while shuf True (Some True) e num0 (d\<lparr>cards := []\<rparr>) g (int m)
          (pre @ replicate m None) =
        deal_while shuf True (Some True) e num0
          ((d\<lparr>cards := F\<rparr>)\<lparr>cards := shuf g (cards (d\<lparr>cards := F\<rparr>))\<rparr>) (Suc g) (int m)
          (pre @ replicate m None)"
    by (rule deal_while_empty_rebuild) (use m deque build in simp_all)
  also have "\<dots> = deal_while shuf True (Some True) e num0 (d\<lparr>cards := ?S\<rparr>) (Suc g) (int m)
          (pre @ replicate (m + 0) None)"
    by simp
  also have "\<dots> = deal_while shuf True (Some True) e num0
          ((d\<lparr>cards := ?S\<rparr>)\<lparr>cards := remaining e m (cards (d\<lparr>cards := ?S\<rparr>))\<rparr>)
          (Suc g) (int m - int m)
          (pre @ popped e m (cards (d\<lparr>cards := ?S\<rparr>)) @ replicate 0 None)"
    by (rule deal_while_pops) (use m len pre deque in simp_all)
  also have "\<dots> = Some (Inr (pre @ popped e m ?S, d\<lparr>cards := remaining e m ?S\<rparr>, Suc g))"
    by (simp add: deal_while_done del: remaining.simps popped.simps)
  finally have "deal_while shuf True (Some True) e num0 (d\<lparr>cards := []\<rparr>) g (int m)
          (pre @ replicate m None) =
        Some (Inr (pre @ popped e m ?S, d\<lparr>cards := remaining e m ?S\<rparr>, Suc g))" .
  moreover have "length (popped e m ?S) = m" using m len by (simp add: length_popped)
  moreover have "length (remaining e m ?S) = length F - m" using len by (simp add: length_remaining)
  ultimately show ?case by simp
next
  case (Suc q)
  let ?S = "shuf g F"
  let ?D = "length F"
  let ?rest = "q * ?D + m"
  let ?P = "popped e ?D ?S"
  have tot: "Suc q * ?D + m = ?D + ?rest" by simp
  have pre: "num0 - int (?D + ?rest) = int (length pre)" using Suc.prems by (simp add: algebra_simps)
  have lenP: "length ?P = ?D" using len by (simp add: length_popped)
  have gone: "remaining e ?D ?S = []" using remaining_all [of e ?S] len by simp
  have pre': "num0 - int ?rest = int (length (pre @ ?P))"
    using pre lenP by simp
  have "0 < ?D + ?rest" using m by arith
  then have pos: "0 < int (?D + ?rest)" by (simp only: of_nat_0_less_iff)
  obtain X R where
    ih: "deal_while shuf True (Some True) e num0 (d\<lparr>cards := []\<rparr>) (Suc g) (int ?rest)
           ((pre @ ?P) @ replicate ?rest None) =
         Some (Inr ((pre @ ?P) @ X, d\<lparr>cards := R\<rparr>, Suc g + q + 1))"
    and lx: "length X = ?rest" and lr: "length R = ?D - m"
    using Suc.IH [OF pre', of "Suc g"] by blast
  have "deal_while shuf True (Some True) e num0 (d\<lparr>cards := []\<rparr>) g (int (?D + ?rest))
          (pre @ replicate (?D + ?rest) None) =
        deal_while shuf True (Some True) e num0
          ((d\<lparr>cards := F\<rparr>)\<lparr>cards := shuf g (cards (d\<lparr>cards := F\<rparr>))\<rparr>) (Suc g)
          (int (?D + ?rest)) (pre @ replicate (?D + ?rest) None)"
    by (rule deal_while_empty_rebuild) (use pos deque build in simp_all)
  also have "\<dots> = deal_while shuf True (Some True) e num0 (d\<lparr>cards := ?S\<rparr>) (Suc g)
          (int (?D + ?rest)) (pre @ replicate (?D + ?rest) None)"
    by simp
  also have "\<dots> = deal_while shuf True (Some True) e num0
          ((d\<lparr>cards := ?S\<rparr>)\<lparr>cards := remaining e ?D (cards (d\<lparr>cards := ?S\<rparr>))\<rparr>)
          (Suc g) (int (?D + ?rest) - int ?D)
          (pre @ popped e ?D (cards (d\<lparr>cards := ?S\<rparr>)) @ replicate ?rest None)"
    by (rule deal_while_pops) (use len pre deque in simp_all)
  also have "\<dots> = deal_while shuf True (Some True) e num0 (d\<lparr>cards := []\<rparr>) (Suc g) (int ?rest)
          ((pre @ ?P) @ replicate ?rest None)"
    using gone by (simp del: remaining.simps popped.simps)
  also note ih
  finally have "deal_while shuf True (Some True) e num0 (d\<lparr>cards := []\<rparr>) g (int (?D + ?rest))
          (pre @ replicate (?D + ?rest) None) =
        Some (Inr (pre @ (?P @ X), d\<lparr>cards := R\<rparr>, g + Suc q + 1))"
    by simp
  moreover have "length (?P @ X) = ?D + ?rest" using lenP lx by simp
  ultimately show ?case
    unfolding tot using lr by blast
qed


text \<open>
  Claim C2, as amended.  Take a Deck with the standard faces and suits and
  \<open>decks = 1\<close>, with rebuild on (in the Deck or passed to the call), reshuffle on in
  the Deck and no \<open>shuffle\<close> argument, holding \<open>r\<close> cards in a deque, and a shuffle
  that rearranges.  For every \<open>num\<close> above \<open>r\<close>, \<open>deal(num)\<close> returns exactly \<open>num\<close>
  cards, the first \<open>r\<close> of them the cards that were left, in the order popped.  With
  \<open>D = decks * 52 + jokers\<close>, the size of a fresh deck, the Deck is rebuilt and
  shuffled \<open>(num - r - 1) div D + 1\<close> times, and afterwards it holds
  \<open>D - ((num - r - 1) mod D + 1)\<close> cards.  When \<open>num\<close> is at most \<open>r + D\<close>, the cards
  after the first \<open>r\<close> are the first \<open>num - r\<close> popped from one freshly built and shuffled
  deck, the Deck holds the rest of that deck, and its size is \<open>D - (num - r)\<close>.
\<close>

theorem Deck_deal_rebuild:
  assumes std: "faces d = Faces" "suits d = Suits" "decks d = 1" "0 \<le> jokers d"
    and deque: "held d = Deque"
    and on: "reshuffle d" "case rb of None \<Rightarrow> rebuild d | Some b \<Rightarrow> b"
    and more: "int (length (cards d)) < num"
    and perm: "\<forall>g xs. mset (shuf g xs) = mset xs"
  shows "\<exists>fresh dealt d' g'.
           Deck_build d None None = Inr fresh \<and>
           int (length (cards fresh)) = decks d * 52 + jokers d \<and>
           mset (shuf g (cards fresh)) = mset (cards fresh) \<and>
           Deck_deal shuf g d num rb None e = Some (Inr (dealt, d', g')) \<and>
           int (length (cards dealt)) = num \<and>
           take (length (cards d)) (cards dealt) = popped e (length (cards d)) (cards d) \<and>
           int g' = int g + (num - int (length (cards d)) - 1) div (decks d * 52 + jokers d) + 1 \<and>
           int (length (cards d')) =
             (decks d * 52 + jokers d) -
             ((num - int (length (cards d)) - 1) mod (decks d * 52 + jokers d) + 1) \<and>
           (num \<le> int (length (cards d)) + (decks d * 52 + jokers d) \<longrightarrow>
              cards dealt =
                popped e (length (cards d)) (cards d) @
                popped e (nat num - length (cards d)) (shuf g (cards fresh)) \<and>
              cards d' = remaining e (nat num - length (cards d)) (shuf g (cards fresh)) \<and>
              int (length (cards d')) =
                (decks d * 52 + jokers d) - (num - int (length (cards d))))"
proof -
  let ?n = "length (cards d)"
  let ?owed = "nat num - ?n"
  obtain F where lenF: "length F = 52 + nat (jokers d)"
    and build: "\<And>xs. Deck_build (d\<lparr>cards := xs\<rparr>) None None = Inr (d\<lparr>cards := F\<rparr>)"
    using Deck_build_standard [OF std(1,2,4) deque] by blast
  let ?fresh = "d\<lparr>cards := F\<rparr>"
  let ?D = "length F"
  let ?P1 = "popped e ?n (cards d)"
  define q where "q = (?owed - 1) div ?D"
  define m where "m = (?owed - 1) mod ?D + 1"
  have Dpos: "0 < ?D" using lenF by simp
  have Dint: "int ?D = decks d * 52 + jokers d" using lenF std(3,4) by simp
  have b0: "Deck_build d None None = Inr ?fresh"
    using build [of "cards d"] by simp
  have len: "length (shuf g' F) = ?D" for g'
    using perm by (metis mset_eq_length)
  have owed: "0 < ?owed" "int ?owed = num - int ?n"
    using more by auto
  have numsplit: "nat num = ?n + ?owed" using more by auto
  have m: "1 \<le> m" "m \<le> ?D"
    using Dpos by (simp_all add: m_def Suc_leI)
  have "q * ?D + (?owed - 1) mod ?D = ?owed - 1"
    unfolding q_def by simp
  then have qm: "q * ?D + m = ?owed"
    using owed(1) by (simp add: m_def)
  have rb: "(case rb of None \<Rightarrow> rebuild d | Some b \<Rightarrow> b) = True"
    using on(2) by (cases rb) simp_all
  have lenP1: "length ?P1 = ?n" by (simp add: length_popped)
  have pre: "num - int (q * ?D + m) = int (length ?P1)"
    unfolding qm lenP1 using owed(2) by simp
  obtain X R where
    rounds: "deal_while shuf True (Some True) e num (d\<lparr>cards := []\<rparr>) g
              (int (q * ?D + m)) (?P1 @ replicate (q * ?D + m) None) =
            Some (Inr (?P1 @ X, d\<lparr>cards := R\<rparr>, g + q + 1))"
    and lx: "length X = q * ?D + m" and lr: "length R = ?D - m"
    and once: "q = 0 \<longrightarrow> X = popped e m (shuf g F) \<and> R = remaining e m (shuf g F)"
    using deal_while_rounds [where d = d and F = F and shuf = shuf and m = m and q = q
        and ?num0.0 = num and pre = ?P1 and e = e and g = g, OF build deque len m pre]
    by blast
  have "deal_while shuf True (Some True) e num d g num ([] @ replicate (?n + ?owed) None) =
        deal_while shuf True (Some True) e num (d\<lparr>cards := remaining e ?n (cards d)\<rparr>) g
          (num - int ?n) ([] @ ?P1 @ replicate ?owed None)"
    by (rule deal_while_pops) (use more deque in simp_all)
  also have "\<dots> = deal_while shuf True (Some True) e num (d\<lparr>cards := []\<rparr>) g
          (int (q * ?D + m)) (?P1 @ replicate (q * ?D + m) None)"
    unfolding qm using owed(2) by (simp add: remaining_all del: remaining.simps popped.simps)
  also note rounds
  finally have loop: "deal_while shuf True (Some True) e num d g num (replicate (nat num) None) =
      Some (Inr (?P1 @ X, d\<lparr>cards := R\<rparr>, g + q + 1))"
    using numsplit by simp
  let ?dealt = "\<lparr>cards = ?P1 @ X, held = Deque, ranks = ranks d\<rparr>"
  have deal: "Deck_deal shuf g d num rb None e =
      Some (Inr (?dealt, d\<lparr>cards := R\<rparr>, g + q + 1))"
    unfolding Deck_deal_def Let_def rb
    using loop on(1) by (simp add: Stack_init_def ebind_def del: remaining.simps popped.simps)
  have c1: "int (length (cards ?dealt)) = num"
    using lenP1 lx qm more by simp
  have c2: "take ?n (cards ?dealt) = ?P1"
    using lenP1 by simp
  have i1: "int (?owed - 1) = num - int ?n - 1"
    using owed by simp
  have c3: "int (g + q + 1) = int g + (num - int ?n - 1) div (decks d * 52 + jokers d) + 1"
    unfolding q_def Dint [symmetric] i1 [symmetric] by (simp add: zdiv_int)
  have "int (?D - m) = int ?D - int m" using m(2) by simp
  also have "int m = (num - int ?n - 1) mod int ?D + 1"
    unfolding m_def i1 [symmetric] by (simp add: zmod_int)
  finally have c4: "int (length (cards (d\<lparr>cards := R\<rparr>))) =
      (decks d * 52 + jokers d) - ((num - int ?n - 1) mod (decks d * 52 + jokers d) + 1)"
    unfolding Dint using lr by simp
  have c5: "num \<le> int ?n + (decks d * 52 + jokers d) \<longrightarrow>
            cards ?dealt = ?P1 @ popped e ?owed (shuf g (cards ?fresh)) \<and>
            cards (d\<lparr>cards := R\<rparr>) = remaining e ?owed (shuf g (cards ?fresh)) \<and>
            int (length (cards (d\<lparr>cards := R\<rparr>))) = (decks d * 52 + jokers d) - (num - int ?n)"
  proof (intro impI)
    assume fits: "num \<le> int ?n + (decks d * 52 + jokers d)"
    have le: "?owed \<le> ?D" using fits Dint more by simp
    then have "?owed - 1 < ?D" using owed(1) by simp
    then have q0: "q = 0" and m0: "m = ?owed"
      using owed(1) by (simp_all add: q_def m_def)
    from once q0 m0 have X: "X = popped e ?owed (shuf g F)"
      and R: "R = remaining e ?owed (shuf g F)" by simp_all
    have "int (length R) = int ?D - int ?owed"
      using lr m0 le by simp
    then have "int (length R) = (decks d * 52 + jokers d) - (num - int ?n)"
      unfolding Dint owed(2) .
    then show "cards ?dealt = ?P1 @ popped e ?owed (shuf g (cards ?fresh)) \<and>
            cards (d\<lparr>cards := R\<rparr>) = remaining e ?owed (shuf g (cards ?fresh)) \<and>
            int (length (cards (d\<lparr>cards := R\<rparr>))) = (decks d * 52 + jokers d) - (num - int ?n)"
      using X R by simp
  qed
  have c0: "mset (shuf g (cards ?fresh)) = mset (cards ?fresh)" using perm by simp
  have c6: "int (length (cards ?fresh)) = decks d * 52 + jokers d" using Dint by simp
  show ?thesis
    by (rule exI [of _ ?fresh], rule exI [of _ ?dealt],
        rule exI [of _ "d\<lparr>cards := R\<rparr>"], rule exI [of _ "g + q + 1"])
       (intro conjI; (rule b0 c6 c0 deal c1 c2 c3 c4 c5))
qed

theorem Deck_deal_rebuild_witness:
  "(\<forall>g. \<forall>xs :: item list. mset (rev xs) = mset xs) \<and>
   held
     \<lparr>cards = [Some \<lparr>face = ''2'', suit = Some ''Clubs'', value = 2\<rparr>,
                Some \<lparr>face = ''3'', suit = Some ''Clubs'', value = 3\<rparr>],
       held = Deque, ranks = Some Ranks_default, decks = 1, jokers = 0, rebuild = True,
       reshuffle = True, faces = Faces, suits = Suits\<rparr> = Deque \<and>
   rebuild
     \<lparr>cards = [Some \<lparr>face = ''2'', suit = Some ''Clubs'', value = 2\<rparr>,
                Some \<lparr>face = ''3'', suit = Some ''Clubs'', value = 3\<rparr>],
       held = Deque, ranks = Some Ranks_default, decks = 1, jokers = 0, rebuild = True,
       reshuffle = True, faces = Faces, suits = Suits\<rparr> \<and>
   reshuffle
     \<lparr>cards = [Some \<lparr>face = ''2'', suit = Some ''Clubs'', value = 2\<rparr>,
                Some \<lparr>face = ''3'', suit = Some ''Clubs'', value = 3\<rparr>],
       held = Deque, ranks = Some Ranks_default, decks = 1, jokers = 0, rebuild = True,
       reshuffle = True, faces = Faces, suits = Suits\<rparr> \<and>
   int (length (cards
     \<lparr>cards = [Some \<lparr>face = ''2'', suit = Some ''Clubs'', value = 2\<rparr>,
                Some \<lparr>face = ''3'', suit = Some ''Clubs'', value = 3\<rparr>],
       held = Deque, ranks = Some Ranks_default, decks = 1, jokers = 0, rebuild = True,
       reshuffle = True, faces = Faces, suits = Suits\<rparr>)) < 3 \<and>
   (\<exists>dealt d' g'.
      Deck_deal (\<lambda>g. rev) 0
     \<lparr>cards = [Some \<lparr>face = ''2'', suit = Some ''Clubs'', value = 2\<rparr>,
                Some \<lparr>face = ''3'', suit = Some ''Clubs'', value = 3\<rparr>],
       held = Deque, ranks = Some Ranks_default, decks = 1, jokers = 0, rebuild = True,
       reshuffle = True, faces = Faces, suits = Suits\<rparr> 3 None None TOP = Some (Inr (dealt, d', g')) \<and>
      int (length (cards dealt)) = 3 \<and>
      take 2 (cards dealt) = [Some \<lparr>face = ''3'', suit = Some ''Clubs'', value = 3\<rparr>,
                              Some \<lparr>face = ''2'', suit = Some ''Clubs'', value = 2\<rparr>] \<and>
      int (length (cards d')) = 51 \<and> g' = 1) \<and>
   (\<exists>dealt d' g'.
      Deck_deal (\<lambda>g. rev) 0
     \<lparr>cards = [Some \<lparr>face = ''2'', suit = Some ''Clubs'', value = 2\<rparr>,
                Some \<lparr>face = ''3'', suit = Some ''Clubs'', value = 3\<rparr>],
       held = Deque, ranks = Some Ranks_default, decks = 1, jokers = 0, rebuild = True,
       reshuffle = True, faces = Faces, suits = Suits\<rparr> 60 None None TOP = Some (Inr (dealt, d', g')) \<and>
      int (length (cards dealt)) = 60 \<and>
      take 2 (cards dealt) = [Some \<lparr>face = ''3'', suit = Some ''Clubs'', value = 3\<rparr>,
                              Some \<lparr>face = ''2'', suit = Some ''Clubs'', value = 2\<rparr>] \<and>
      int (length (cards d')) = 46 \<and> g' = 2)"
proof -
  define D where "D = \<lparr>cards = [Some \<lparr>face = ''2'', suit = Some ''Clubs'', value = 2\<rparr>,
                Some \<lparr>face = ''3'', suit = Some ''Clubs'', value = 3\<rparr>],
       held = Deque, ranks = Some Ranks_default, decks = 1, jokers = 0, rebuild = True,
       reshuffle = True, faces = Faces, suits = Suits\<rparr>"
  have D2: "length (cards D) = 2" "decks D * 52 + jokers D = 52"
    "popped TOP 2 (cards D) = [Some \<lparr>face = ''3'', suit = Some ''Clubs'', value = 3\<rparr>,
                               Some \<lparr>face = ''2'', suit = Some ''Clubs'', value = 2\<rparr>]"
    by (simp_all add: D_def)
  have "\<exists>fresh dealt d' g'.
           Deck_build D None None = Inr fresh \<and>
           int (length (cards fresh)) = decks D * 52 + jokers D \<and>
           mset (rev (cards fresh)) = mset (cards fresh) \<and>
           Deck_deal (\<lambda>g. rev) 0 D 3 None None TOP = Some (Inr (dealt, d', g')) \<and>
           int (length (cards dealt)) = 3 \<and>
           take (length (cards D)) (cards dealt) = popped TOP (length (cards D)) (cards D) \<and>
           int g' = int 0 + (3 - int (length (cards D)) - 1) div (decks D * 52 + jokers D) + 1 \<and>
           int (length (cards d')) =
             (decks D * 52 + jokers D) -
             ((3 - int (length (cards D)) - 1) mod (decks D * 52 + jokers D) + 1) \<and>
           (3 \<le> int (length (cards D)) + (decks D * 52 + jokers D) \<longrightarrow>
              cards dealt =
                popped TOP (length (cards D)) (cards D) @
                popped TOP (nat 3 - length (cards D)) (rev (cards fresh)) \<and>
              cards d' = remaining TOP (nat 3 - length (cards D)) (rev (cards fresh)) \<and>
              int (length (cards d')) =
                (decks D * 52 + jokers D) - (3 - int (length (cards D))))"
    by (rule Deck_deal_rebuild [where d = D and rb = None and num = 3 and shuf = "\<lambda>g. rev"
          and g = 0 and e = TOP]) (simp_all add: D_def)
  then obtain dealt d' g' where
        r: "Deck_deal (\<lambda>g. rev) 0 D 3 None None TOP = Some (Inr (dealt, d', g'))"
    and l: "int (length (cards dealt)) = 3"
    and c: "take (length (cards D)) (cards dealt) = popped TOP (length (cards D)) (cards D)"
    and s: "int g' = int 0 + (3 - int (length (cards D)) - 1) div (decks D * 52 + jokers D) + 1"
    and z: "int (length (cards d')) =
             (decks D * 52 + jokers D) -
             ((3 - int (length (cards D)) - 1) mod (decks D * 52 + jokers D) + 1)"
    by (elim exE conjE) (rule that, assumption+)
  have one: "\<exists>dealt d' g'.
      Deck_deal (\<lambda>g. rev) 0 D 3 None None TOP = Some (Inr (dealt, d', g')) \<and>
      int (length (cards dealt)) = 3 \<and>
      take 2 (cards dealt) = [Some \<lparr>face = ''3'', suit = Some ''Clubs'', value = 3\<rparr>,
                              Some \<lparr>face = ''2'', suit = Some ''Clubs'', value = 2\<rparr>] \<and>
      int (length (cards d')) = 51 \<and> g' = 1"
    using r l c s z unfolding D2 by (intro exI [of _ dealt] exI [of _ d'] exI [of _ g']) simp
  have "\<exists>fresh dealt d' g'.
           Deck_build D None None = Inr fresh \<and>
           int (length (cards fresh)) = decks D * 52 + jokers D \<and>
           mset (rev (cards fresh)) = mset (cards fresh) \<and>
           Deck_deal (\<lambda>g. rev) 0 D 60 None None TOP = Some (Inr (dealt, d', g')) \<and>
           int (length (cards dealt)) = 60 \<and>
           take (length (cards D)) (cards dealt) = popped TOP (length (cards D)) (cards D) \<and>
           int g' = int 0 + (60 - int (length (cards D)) - 1) div (decks D * 52 + jokers D) + 1 \<and>
           int (length (cards d')) =
             (decks D * 52 + jokers D) -
             ((60 - int (length (cards D)) - 1) mod (decks D * 52 + jokers D) + 1) \<and>
           (60 \<le> int (length (cards D)) + (decks D * 52 + jokers D) \<longrightarrow>
              cards dealt =
                popped TOP (length (cards D)) (cards D) @
                popped TOP (nat 60 - length (cards D)) (rev (cards fresh)) \<and>
              cards d' = remaining TOP (nat 60 - length (cards D)) (rev (cards fresh)) \<and>
              int (length (cards d')) =
                (decks D * 52 + jokers D) - (60 - int (length (cards D))))"
    by (rule Deck_deal_rebuild [where d = D and rb = None and num = 60 and shuf = "\<lambda>g. rev"
          and g = 0 and e = TOP]) (simp_all add: D_def)
  then obtain dealt d' g' where
        r: "Deck_deal (\<lambda>g. rev) 0 D 60 None None TOP = Some (Inr (dealt, d', g'))"
    and l: "int (length (cards dealt)) = 60"
    and c: "take (length (cards D)) (cards dealt) = popped TOP (length (cards D)) (cards D)"
    and s: "int g' = int 0 + (60 - int (length (cards D)) - 1) div (decks D * 52 + jokers D) + 1"
    and z: "int (length (cards d')) =
             (decks D * 52 + jokers D) -
             ((60 - int (length (cards D)) - 1) mod (decks D * 52 + jokers D) + 1)"
    by (elim exE conjE) (rule that, assumption+)
  have two: "\<exists>dealt d' g'.
      Deck_deal (\<lambda>g. rev) 0 D 60 None None TOP = Some (Inr (dealt, d', g')) \<and>
      int (length (cards dealt)) = 60 \<and>
      take 2 (cards dealt) = [Some \<lparr>face = ''3'', suit = Some ''Clubs'', value = 3\<rparr>,
                              Some \<lparr>face = ''2'', suit = Some ''Clubs'', value = 2\<rparr>] \<and>
      int (length (cards d')) = 46 \<and> g' = 2"
    using r l c s z unfolding D2 by (intro exI [of _ dealt] exI [of _ d'] exI [of _ g']) simp
  show ?thesis
    using one two unfolding D_def by simp
qed

text \<open>
  The claim as written fails when more is owed than one fresh deck holds.  The Deck
  made by \<open>Deck(build=False, rebuild=True)\<close> is empty, with rebuild and reshuffle on;
  asked for 53 cards it rebuilds twice, returns 53 cards and ends with 51, where the
  claimed size is \<open>-1\<close>.
\<close>

theorem Deck_deal_second_rebuild_counterexample:
  "(case Deck_init Map.empty (default_args\<lparr>arg_build := False, arg_rebuild := Some True\<rparr>) of
      Inl err \<Rightarrow> None
    | Inr (d, V) \<Rightarrow>
        (case Deck_deal (\<lambda>g. rev) 0 d 53 None None TOP of
           Some (Inr (dealt, d', g')) \<Rightarrow>
             Some (rebuild d \<and> reshuffle d, int (length (cards d)), int (length (cards dealt)),
                   int (length (cards d')),
                   (decks d * 52 + jokers d) - (53 - int (length (cards d))))
         | _ \<Rightarrow> None)) =
     Some (True, 0, 53, 51, - 1)"
  by code_simp

text \<open>
  With a \<open>shuffle\<close> argument in the call, the local \<open>reshuffle\<close> is never bound, and
  the first rebuild raises.
\<close>

lemma deal_while_empty_unbound:
  "cards self = [] \<Longrightarrow> 0 < num \<Longrightarrow> held self = Deque \<Longrightarrow>
   Deck_build self None None = Inr self2 \<Longrightarrow>
     deal_while shuf True None e num0 self g num dealt = Some (Inl UnboundLocalError)"
  by (subst deal_while.simps) (cases e; simp add: Let_def)

lemma Deck_deal_shuffle_arg_unbound:
  assumes std: "faces d = Faces" "suits d = Suits" "0 \<le> jokers d"
    and deque: "held d = Deque"
    and on: "case rb of None \<Rightarrow> rebuild d | Some b \<Rightarrow> b"
    and more: "int (length (cards d)) < num"
  shows "Deck_deal shuf g d num rb (Some b) e = Some (Inl UnboundLocalError)"
proof -
  let ?n = "length (cards d)"
  let ?owed = "nat num - ?n"
  obtain F where build: "\<And>xs. Deck_build (d\<lparr>cards := xs\<rparr>) None None = Inr (d\<lparr>cards := F\<rparr>)"
    using Deck_build_standard [OF std deque] by blast
  have numsplit: "nat num = ?n + ?owed" using more by auto
  have rb: "(case rb of None \<Rightarrow> rebuild d | Some b \<Rightarrow> b) = True"
    using on by (cases rb) simp_all
  have "deal_while shuf True None e num d g num ([] @ replicate (?n + ?owed) None) =
        deal_while shuf True None e num (d\<lparr>cards := remaining e ?n (cards d)\<rparr>) g
          (num - int ?n) ([] @ popped e ?n (cards d) @ replicate ?owed None)"
    by (rule deal_while_pops) (use more deque in simp_all)
  also have "\<dots> = Some (Inl UnboundLocalError)"
    by (rule deal_while_empty_unbound [where ?self2.0 = "d\<lparr>cards := F\<rparr>"])
       (use more build deque in \<open>simp_all add: remaining_all\<close>)
  finally have "deal_while shuf True None e num d g num (replicate (nat num) None) =
      Some (Inl UnboundLocalError)"
    using numsplit by simp
  then show ?thesis
    unfolding Deck_deal_def Let_def rb by simp
qed

end
